theory Spec2Isabelle
  imports Complex_Main
begin

section \<open>Zone-based intrusion detection: a shallow embedding\<close>

text \<open>
  The development follows the Python sources of the application:
  \<^item> \<^verbatim>\<open>app/services/zone_service.py\<close> (coordinate parsing, point-in-polygon test,
    \<^verbatim>\<open>check_zones\<close>),
  \<^item> \<^verbatim>\<open>app/services/yolo_service.py\<close> (the post-processing filter of \<^verbatim>\<open>detect_objects\<close>),
  \<^item> \<^verbatim>\<open>app/db/crud.py\<close>, \<^verbatim>\<open>app/api/zones.py\<close>, \<^verbatim>\<open>app/models/schemas.py\<close> (zone registry),
  \<^item> \<^verbatim>\<open>detection-demo/detect_with_zones_complete.py\<close> (the ray-casting test).

  Python floats are modelled by \<^typ>\<open>real\<close>: the sources only add, subtract, halve and
  compare them, and non-finite values are outside the model. Log calls are modelled as a
  list of structured events returned next to the value. Every exception the sources can
  raise is a value of \<open>py_exn\<close>; a function whose body catches everything returns a plain
  value, a function that can raise returns a sum with \<open>Inl\<close> for the exception.
\<close>

subsection \<open>Exceptions, decoded JSON documents, library functions\<close>

datatype py_exn =
    JSONDecodeError
  | TypeError
  | ValueError
  | OverflowError
  | ValidationError
  | UnboundLocalError
  | RuntimeError string

text \<open>The value \<^verbatim>\<open>json.loads\<close> returns: a Python object built from
  \<^verbatim>\<open>None\<close>, \<^verbatim>\<open>bool\<close>, \<^verbatim>\<open>int\<close>, \<^verbatim>\<open>float\<close>, \<^verbatim>\<open>str\<close>, \<^verbatim>\<open>list\<close> and \<^verbatim>\<open>dict\<close>
  (a dict as its items in insertion order).\<close>

datatype json =
    JNull
  | JBool bool
  | JInt int
  | JFloat real
  | JString string
  | JArray "json list"
  | JObject "(string \<times> json) list"

type_synonym point = "real \<times> real"
type_synonym polygon = "point list"

text \<open>
  Four functions the application calls live outside the repository: \<^verbatim>\<open>json.loads\<close>,
  \<^verbatim>\<open>float\<close> applied to a \<^verbatim>\<open>str\<close>, Shapely's
  \<^verbatim>\<open>Polygon(coords).contains(Point(x, y))\<close>, and \<^verbatim>\<open>json.dumps\<close> on a list of
  lists of floats. They are parameters of the model (the first three return either the
  exception they raise or their value); every theorem below holds for all of them.
\<close>

record platform =
  json_loads :: "string \<Rightarrow> py_exn + json"
  str_to_float :: "string \<Rightarrow> py_exn + real"
  polygon_contains :: "polygon \<Rightarrow> point \<Rightarrow> py_exn + bool"
  json_dumps :: "real list list \<Rightarrow> string"

datatype log_event =
    Debug_NoZones
  | Error_ParseFailed py_exn
  | Warning_PolygonTooFewPoints
  | Error_PointInPolygon py_exn
  | Warning_ZoneInvalidCoordinates int
  | Info_ZoneViolation string real
  | Error_ModelNotLoaded
  | Debug_RejectedLowConf real
  | Debug_RejectedSmall real real
  | Info_DetectionSummary nat nat nat nat
  | Error_Detection py_exn

subsection \<open>Records of \<^verbatim>\<open>app/models\<close>\<close>

record BoundingBox =
  bb_x1 :: real
  bb_y1 :: real
  bb_x2 :: real
  bb_y2 :: real

record Detection =
  d_class_name :: string
  d_confidence :: real
  d_bbox :: BoundingBox

record ZoneAlert =
  za_zone_id :: int
  za_zone_name :: string
  za_alert_type :: string
  za_confidence :: real

record Zone =
  z_id :: int
  z_camera_id :: string
  z_name :: string
  z_coordinates_json :: string
  z_alert_type :: string
  z_active :: bool
  z_active_hours :: "string option"
  z_created_at :: nat

text \<open>Pydantic checks \<^verbatim>\<open>Field(..., ge=0.0, le=1.0)\<close> when a \<^verbatim>\<open>Detection\<close> or a
  \<^verbatim>\<open>ZoneAlert\<close> is constructed and raises \<^verbatim>\<open>ValidationError\<close> otherwise.\<close>

definition confidence_ok :: "real \<Rightarrow> bool" where
  "confidence_ok c = (0 \<le> c \<and> c \<le> 1)"

definition new_Detection :: "string \<Rightarrow> real \<Rightarrow> BoundingBox \<Rightarrow> py_exn + Detection" where
  "new_Detection cn c b =
     (if confidence_ok c then Inr \<lparr>d_class_name = cn, d_confidence = c, d_bbox = b\<rparr>
      else Inl ValidationError)"

definition new_ZoneAlert :: "int \<Rightarrow> string \<Rightarrow> string \<Rightarrow> real \<Rightarrow> py_exn + ZoneAlert" where
  "new_ZoneAlert zid zname atype c =
     (if confidence_ok c
      then Inr \<lparr>za_zone_id = zid, za_zone_name = zname, za_alert_type = atype, za_confidence = c\<rparr>
      else Inl ValidationError)"

subsection \<open>\<^verbatim>\<open>ZoneDetectionService.parse_zone_coordinates\<close>\<close>

text \<open>\<^verbatim>\<open>float(x)\<close> on a decoded value: numbers and booleans convert, a string is
  parsed, anything else raises \<^verbatim>\<open>TypeError\<close>. An \<^verbatim>\<open>int\<close> that rounds beyond the largest
  double, \<open>2^1024 - 2^971\<close>, raises \<^verbatim>\<open>OverflowError\<close>; the rounding of the ints that fit
  is not modelled.\<close>

definition int_fits_float :: "int \<Rightarrow> bool" where
  "int_fits_float i = (\<bar>i\<bar> < 2 ^ 1024 - 2 ^ 970)"

fun py_float :: "platform \<Rightarrow> json \<Rightarrow> py_exn + real" where
  "py_float P (JInt i) = (if int_fits_float i then Inr (real_of_int i) else Inl OverflowError)"
| "py_float P (JFloat r) = Inr r"
| "py_float P (JBool b) = Inr (if b then 1 else 0)"
| "py_float P (JString s) = str_to_float P s"
| "py_float P JNull = Inl TypeError"
| "py_float P (JArray xs) = Inl TypeError"
| "py_float P (JObject kvs) = Inl TypeError"

text \<open>Iterating a decoded value: a list yields its items, a dict its keys, a string its
  characters (each a string of length one); anything else is not iterable.\<close>

fun py_iter :: "json \<Rightarrow> py_exn + json list" where
  "py_iter (JArray xs) = Inr xs"
| "py_iter (JObject kvs) = Inr (map (\<lambda>kv. JString (fst kv)) kvs)"
| "py_iter (JString s) = Inr (map (\<lambda>c. JString [c]) s)"
| "py_iter JNull = Inl TypeError"
| "py_iter (JBool b) = Inl TypeError"
| "py_iter (JInt i) = Inl TypeError"
| "py_iter (JFloat r) = Inl TypeError"

text \<open>The target \<^verbatim>\<open>x, y\<close> of the comprehension: the element must be iterable
  (\<^verbatim>\<open>TypeError\<close>) and yield exactly two items (\<^verbatim>\<open>ValueError\<close>).\<close>

definition unpack2 :: "json \<Rightarrow> py_exn + (json \<times> json)" where
  "unpack2 e =
     (case py_iter e of
        Inl ex \<Rightarrow> Inl ex
      | Inr items \<Rightarrow> (case items of [a, b] \<Rightarrow> Inr (a, b) | _ \<Rightarrow> Inl ValueError))"

text \<open>\<^verbatim>\<open>[(float(x), float(y)) for x, y in coords]\<close>, over the items of \<^verbatim>\<open>coords\<close>.\<close>

fun float_pairs :: "platform \<Rightarrow> json list \<Rightarrow> py_exn + polygon" where
  "float_pairs P [] = Inr []"
| "float_pairs P (e # es) =
     (case unpack2 e of
        Inl ex \<Rightarrow> Inl ex
      | Inr xy \<Rightarrow>
          (case py_float P (fst xy) of
             Inl ex \<Rightarrow> Inl ex
           | Inr fx \<Rightarrow>
               (case py_float P (snd xy) of
                  Inl ex \<Rightarrow> Inl ex
                | Inr fy \<Rightarrow>
                    (case float_pairs P es of
                       Inl ex \<Rightarrow> Inl ex
                     | Inr rest \<Rightarrow> Inr ((fx, fy) # rest)))))"

text \<open>The body of the \<^verbatim>\<open>try\<close> block.\<close>

definition parse_try :: "platform \<Rightarrow> string \<Rightarrow> py_exn + polygon" where
  "parse_try P coordinates_json =
     (case json_loads P coordinates_json of
        Inl ex \<Rightarrow> Inl ex
      | Inr coords \<Rightarrow>
          (case py_iter coords of
             Inl ex \<Rightarrow> Inl ex
           | Inr items \<Rightarrow> float_pairs P items))"

definition parse_zone_coordinates :: "platform \<Rightarrow> string \<Rightarrow> polygon \<times> log_event list" where
  "parse_zone_coordinates P coordinates_json =
     (case parse_try P coordinates_json of
        Inr coords \<Rightarrow> (coords, [])
      | Inl ex \<Rightarrow> ([], [Error_ParseFailed ex]))"

subsection \<open>\<^verbatim>\<open>ZoneDetectionService.is_point_in_polygon\<close> and \<^verbatim>\<open>get_bbox_center\<close>\<close>

definition is_point_in_polygon :: "platform \<Rightarrow> point \<Rightarrow> polygon \<Rightarrow> bool \<times> log_event list" where
  "is_point_in_polygon P pt polygon_coords =
     (if length polygon_coords < 3 then (False, [Warning_PolygonTooFewPoints])
      else (case polygon_contains P polygon_coords pt of
              Inr b \<Rightarrow> (b, [])
            | Inl ex \<Rightarrow> (False, [Error_PointInPolygon ex])))"

definition get_bbox_center :: "BoundingBox \<Rightarrow> point" where
  "get_bbox_center bbox = ((bb_x1 bbox + bb_x2 bbox) / 2, (bb_y1 bbox + bb_y2 bbox) / 2)"

subsection \<open>\<^verbatim>\<open>ZoneDetectionService.check_zones\<close>\<close>

text \<open>The loops thread the pair of the alert list and the log; an exception (only the
  \<^verbatim>\<open>ZoneAlert\<close> constructor can raise here) leaves the function.\<close>

type_synonym eval_state = "ZoneAlert list \<times> log_event list"

fun check_detections ::
  "platform \<Rightarrow> Zone \<Rightarrow> polygon \<Rightarrow> Detection list \<Rightarrow> eval_state \<Rightarrow> py_exn + eval_state" where
  "check_detections P zone polygon_coords [] st = Inr st"
| "check_detections P zone polygon_coords (detection # rest) st =
     (let center = get_bbox_center (d_bbox detection);
          hit = is_point_in_polygon P center polygon_coords
      in if fst hit
         then (case new_ZoneAlert (z_id zone) (z_name zone) (z_alert_type zone)
                       (d_confidence detection) of
                 Inl ex \<Rightarrow> Inl ex
               | Inr alert \<Rightarrow>
                   check_detections P zone polygon_coords rest
                     (fst st @ [alert],
                      snd st @ snd hit @ [Info_ZoneViolation (z_name zone) (d_confidence detection)]))
         else check_detections P zone polygon_coords rest (fst st, snd st @ snd hit))"

fun check_zones_loop ::
  "platform \<Rightarrow> Detection list \<Rightarrow> Zone list \<Rightarrow> eval_state \<Rightarrow> py_exn + eval_state" where
  "check_zones_loop P detections [] st = Inr st"
| "check_zones_loop P detections (zone # rest) st =
     (if \<not> z_active zone then check_zones_loop P detections rest st
      else
        (let parsed = parse_zone_coordinates P (z_coordinates_json zone) in
         if fst parsed = []
         then check_zones_loop P detections rest
                (fst st, snd st @ snd parsed @ [Warning_ZoneInvalidCoordinates (z_id zone)])
         else (case check_detections P zone (fst parsed) detections (fst st, snd st @ snd parsed) of
                 Inl ex \<Rightarrow> Inl ex
               | Inr st' \<Rightarrow> check_zones_loop P detections rest st')))"

definition check_zones :: "platform \<Rightarrow> Detection list \<Rightarrow> Zone list \<Rightarrow> py_exn + eval_state" where
  "check_zones P detections zones =
     (if zones = [] then Inr ([], [Debug_NoZones])
      else check_zones_loop P detections zones ([], []))"


subsection \<open>\<^verbatim>\<open>CompleteZoneDemo.point_in_polygon\<close> (ray casting)\<close>

text \<open>The loop variables: the previous vertex, the flag, and \<^verbatim>\<open>xinters\<close>, which is
  unbound until its first assignment.\<close>

record ray_state =
  rs_p1 :: point
  rs_inside :: bool
  rs_xinters :: "real option"

definition ray_step :: "point \<Rightarrow> point \<Rightarrow> ray_state \<Rightarrow> py_exn + ray_state" where
  "ray_step pt p2 s =
     (let x = fst pt; y = snd pt;
          p1x = fst (rs_p1 s); p1y = snd (rs_p1 s);
          p2x = fst p2; p2y = snd p2
      in if y > min p1y p2y \<and> y \<le> max p1y p2y \<and> x \<le> max p1x p2x
         then
           (let xi = (if p1y \<noteq> p2y
                      then Some ((y - p1y) * (p2x - p1x) / (p2y - p1y) + p1x)
                      else rs_xinters s)
            in if p1x = p2x
               then Inr \<lparr>rs_p1 = p2, rs_inside = (\<not> rs_inside s), rs_xinters = xi\<rparr>
               else (case xi of
                       None \<Rightarrow> Inl UnboundLocalError
                     | Some xinters \<Rightarrow>
                         Inr \<lparr>rs_p1 = p2,
                              rs_inside = (if x \<le> xinters then \<not> rs_inside s else rs_inside s),
                              rs_xinters = xi\<rparr>))
         else Inr (s\<lparr>rs_p1 := p2\<rparr>))"

fun ray_loop :: "point \<Rightarrow> point list \<Rightarrow> ray_state \<Rightarrow> py_exn + ray_state" where
  "ray_loop pt [] s = Inr s"
| "ray_loop pt (p2 # rest) s =
     (case ray_step pt p2 s of Inl ex \<Rightarrow> Inl ex | Inr s' \<Rightarrow> ray_loop pt rest s')"

definition point_in_polygon :: "point \<Rightarrow> polygon \<Rightarrow> py_exn + bool" where
  "point_in_polygon pt polygon =
     (if length polygon < 3 then Inr False
      else
        (let n = length polygon in
         case ray_loop pt (map (\<lambda>i. polygon ! (i mod n)) [1..<n + 1])
                \<lparr>rs_p1 = polygon ! 0, rs_inside = False, rs_xinters = None\<rparr> of
           Inl ex \<Rightarrow> Inl ex
         | Inr s \<Rightarrow> Inr (rs_inside s)))"

subsection \<open>\<^verbatim>\<open>YOLODetectionService.detect_objects\<close>: the post-processing filter\<close>

text \<open>One box of the model's output: \<^verbatim>\<open>int(box.cls[0])\<close>, \<^verbatim>\<open>float(box.conf[0])\<close> and
  \<^verbatim>\<open>box.xyxy[0].tolist()\<close>.\<close>

record Box =
  box_cls :: int
  box_conf :: real
  box_xyxy :: "real \<times> real \<times> real \<times> real"

record filter_state =
  fs_detections :: "Detection list"
  fs_total_person_detections :: nat
  fs_rejected_low_conf :: nat
  fs_rejected_small_box :: nat
  fs_log :: "log_event list"

definition person_class_id :: int where
  "person_class_id = 0"

definition process_box :: "Box \<Rightarrow> filter_state \<Rightarrow> py_exn + filter_state" where
  "process_box box s =
     (if box_cls box \<noteq> person_class_id then Inr s
      else
        (let s1 = s\<lparr>fs_total_person_detections := fs_total_person_detections s + 1\<rparr>;
             confidence = box_conf box;
             x1 = fst (box_xyxy box); y1 = fst (snd (box_xyxy box));
             x2 = fst (snd (snd (box_xyxy box))); y2 = snd (snd (snd (box_xyxy box)));
             width = x2 - x1;
             height = y2 - y1
         in if confidence < 3 / 10
            then Inr (s1\<lparr>fs_rejected_low_conf := fs_rejected_low_conf s1 + 1,
                          fs_log := fs_log s1 @ [Debug_RejectedLowConf confidence]\<rparr>)
            else if width < 20 \<or> height < 40
            then Inr (s1\<lparr>fs_rejected_small_box := fs_rejected_small_box s1 + 1,
                          fs_log := fs_log s1 @ [Debug_RejectedSmall width height]\<rparr>)
            else (case new_Detection ''person'' confidence
                         \<lparr>bb_x1 = x1, bb_y1 = y1, bb_x2 = x2, bb_y2 = y2\<rparr> of
                    Inl ex \<Rightarrow> Inl ex
                  | Inr detection \<Rightarrow>
                      Inr (s1\<lparr>fs_detections := fs_detections s1 @ [detection]\<rparr>))))"

fun process_boxes :: "Box list \<Rightarrow> filter_state \<Rightarrow> py_exn + filter_state" where
  "process_boxes [] s = Inr s"
| "process_boxes (box # rest) s =
     (case process_box box s of Inl ex \<Rightarrow> Inl ex | Inr s' \<Rightarrow> process_boxes rest s')"

fun process_results :: "Box list list \<Rightarrow> filter_state \<Rightarrow> py_exn + filter_state" where
  "process_results [] s = Inr s"
| "process_results (boxes # rest) s =
     (case process_boxes boxes s of Inl ex \<Rightarrow> Inl ex | Inr s' \<Rightarrow> process_results rest s')"

text \<open>\<open>model_loaded\<close> stands for \<^verbatim>\<open>self.model_loaded and self.model is not None\<close>,
  \<open>inference\<close> for the outcome of the call \<^verbatim>\<open>self.model(image, conf=0.2, ...)\<close>. The
  debug events of a run that ends in the \<^verbatim>\<open>except\<close> branch are not kept.\<close>

definition detect_objects :: "bool \<Rightarrow> py_exn + Box list list \<Rightarrow> Detection list \<times> log_event list" where
  "detect_objects model_loaded inference =
     (if \<not> model_loaded then ([], [Error_ModelNotLoaded])
      else
        (case inference of
           Inl ex \<Rightarrow> ([], [Error_Detection ex])
         | Inr results \<Rightarrow>
             (case process_results results
                     \<lparr>fs_detections = [], fs_total_person_detections = 0,
                      fs_rejected_low_conf = 0, fs_rejected_small_box = 0, fs_log = []\<rparr> of
                Inl ex \<Rightarrow> ([], [Error_Detection ex])
              | Inr s \<Rightarrow>
                  (fs_detections s,
                   fs_log s @ [Info_DetectionSummary (length (fs_detections s))
                                 (fs_total_person_detections s) (fs_rejected_low_conf s)
                                 (fs_rejected_small_box s)]))))"

subsection \<open>The store: \<^verbatim>\<open>app/models/database.py\<close> and \<^verbatim>\<open>app/db/crud.py\<close>\<close>

record User =
  u_id :: int
  u_email :: string

record Camera =
  c_id :: string
  c_name :: string
  c_user_id :: int
  c_location :: "string option"
  c_active :: bool
  c_created_at :: nat
  c_last_frame_at :: "nat option"

record Alert =
  a_id :: int
  a_camera_id :: string
  a_zone_id :: int
  a_detection_type :: string
  a_confidence :: real
  a_bbox_json :: "string option"
  a_image_url :: "string option"
  a_extra_data :: "string option"
  a_timestamp :: nat

text \<open>The session's view of the three tables, each in row order. \<^verbatim>\<open>id\<close> is the
  primary key of each table.\<close>

record db =
  db_cameras :: "Camera list"
  db_zones :: "Zone list"
  db_alerts :: "Alert list"

definition get_camera :: "db \<Rightarrow> string \<Rightarrow> Camera option" where
  "get_camera d camera_id = find (\<lambda>c. c_id c = camera_id) (db_cameras d)"

definition create_camera :: "db \<Rightarrow> nat \<Rightarrow> string \<Rightarrow> string \<Rightarrow> int \<Rightarrow> string option \<Rightarrow> Camera \<times> db" where
  "create_camera d now camera_id name user_id location =
     (let camera = \<lparr>c_id = camera_id, c_name = name, c_user_id = user_id,
                     c_location = location, c_active = True, c_created_at = now,
                     c_last_frame_at = None\<rparr>
      in (camera, d\<lparr>db_cameras := db_cameras d @ [camera]\<rparr>))"

definition get_zone :: "db \<Rightarrow> int \<Rightarrow> Zone option" where
  "get_zone d zone_id = find (\<lambda>z. z_id z = zone_id) (db_zones d)"

definition get_camera_zones :: "db \<Rightarrow> string \<Rightarrow> bool \<Rightarrow> Zone list" where
  "get_camera_zones d camera_id active_only =
     (let query = (\<lambda>z. z_camera_id z = camera_id);
          query' = (if active_only then (\<lambda>z. query z \<and> z_active z = True) else query)
      in filter query' (db_zones d))"

text \<open>The integer primary key of a new row: one more than the largest in the table.\<close>

definition next_zone_id :: "db \<Rightarrow> int" where
  "next_zone_id d = (if db_zones d = [] then 1 else Max (set (map z_id (db_zones d))) + 1)"

definition crud_create_zone ::
  "platform \<Rightarrow> db \<Rightarrow> nat \<Rightarrow> string \<Rightarrow> string \<Rightarrow> real list list \<Rightarrow> string \<Rightarrow> bool \<Rightarrow> string option
     \<Rightarrow> Zone \<times> db" where
  "crud_create_zone P d now camera_id name coordinates alert_type active active_hours =
     (let zone = \<lparr>z_id = next_zone_id d, z_camera_id = camera_id, z_name = name,
                   z_coordinates_json = json_dumps P coordinates, z_alert_type = alert_type,
                   z_active = active, z_active_hours = active_hours, z_created_at = now\<rparr>
      in (zone, d\<lparr>db_zones := db_zones d @ [zone]\<rparr>))"

text \<open>\<^verbatim>\<open>db.delete(obj)\<close> removes the row with the primary key of \<open>obj\<close>.\<close>

definition delete_alert :: "Alert \<Rightarrow> db \<Rightarrow> db" where
  "delete_alert alert d = d\<lparr>db_alerts := filter (\<lambda>a. a_id a \<noteq> a_id alert) (db_alerts d)\<rparr>"

definition crud_delete_zone :: "db \<Rightarrow> int \<Rightarrow> bool \<times> db" where
  "crud_delete_zone d zone_id =
     (case get_zone d zone_id of
        Some zone \<Rightarrow>
          (let alerts = filter (\<lambda>a. a_zone_id a = zone_id) (db_alerts d);
               d1 = fold delete_alert alerts d;
               d2 = d1\<lparr>db_zones := filter (\<lambda>z. z_id z \<noteq> z_id zone) (db_zones d1)\<rparr>
           in (True, d2))
      | None \<Rightarrow> (False, d))"

subsection \<open>\<^verbatim>\<open>app/api/zones.py\<close>: \<^verbatim>\<open>create_zone\<close>, and the zone step of \<^verbatim>\<open>app/api/detect.py\<close>\<close>

record ZoneCreate =
  zc_name :: string
  zc_coordinates :: "real list list"
  zc_alert_type :: string
  zc_active :: bool
  zc_active_hours :: "string option"

text \<open>The constraints of the schema: \<^verbatim>\<open>name\<close> has \<^verbatim>\<open>min_length=1, max_length=255\<close>,
  \<^verbatim>\<open>coordinates\<close> has \<^verbatim>\<open>min_length=3\<close>.\<close>

definition ZoneCreate_valid :: "ZoneCreate \<Rightarrow> bool" where
  "ZoneCreate_valid zone_data =
     (1 \<le> length (zc_name zone_data) \<and> length (zc_name zone_data) \<le> 255 \<and>
      3 \<le> length (zc_coordinates zone_data))"

datatype http_response = HTTPException nat | Created Zone

text \<open>The handler. The response is the status of the raised \<^verbatim>\<open>HTTPException\<close>, or the
  zone that the 201 response describes; the store is the session's state when the handler
  is left.\<close>

definition api_create_zone ::
  "platform \<Rightarrow> db \<Rightarrow> nat \<Rightarrow> User \<Rightarrow> string \<Rightarrow> ZoneCreate \<Rightarrow> http_response \<times> db" where
  "api_create_zone P d now current_user camera_id zone_data =
     (let checked =
            (case get_camera d camera_id of
               None \<Rightarrow>
                 Inr (snd (create_camera d now camera_id (''Camera '' @ camera_id)
                             (u_id current_user) None))
             | Some camera \<Rightarrow>
                 if c_user_id camera \<noteq> u_id current_user then Inl (HTTPException 403)
                 else Inr d)
      in case checked of
           Inl resp \<Rightarrow> (resp, d)
         | Inr d1 \<Rightarrow>
             if length (zc_coordinates zone_data) < 3 then (HTTPException 400, d1)
             else
               (let created = crud_create_zone P d1 now camera_id (zc_name zone_data)
                                (zc_coordinates zone_data) (zc_alert_type zone_data)
                                (zc_active zone_data) (zc_active_hours zone_data)
                in (Created (fst created), snd created)))"

text \<open>The route: the request body is validated against \<^verbatim>\<open>ZoneCreate\<close> before the handler
  is called, and a body that fails is answered with 422.\<close>

definition route_create_zone ::
  "platform \<Rightarrow> db \<Rightarrow> nat \<Rightarrow> User \<Rightarrow> string \<Rightarrow> ZoneCreate \<Rightarrow> http_response \<times> db" where
  "route_create_zone P d now current_user camera_id zone_data =
     (if ZoneCreate_valid zone_data then api_create_zone P d now current_user camera_id zone_data
      else (HTTPException 422, d))"

text \<open>Lines 88 to 92 of \<^verbatim>\<open>detect.py\<close>: read the camera's active zones, then evaluate.\<close>

definition detect_zone_alerts :: "platform \<Rightarrow> db \<Rightarrow> string \<Rightarrow> Detection list \<Rightarrow> py_exn + eval_state" where
  "detect_zone_alerts P d camera_id detections =
     check_zones P detections (get_camera_zones d camera_id True)"

subsection \<open>Notions used in the statements about \<^verbatim>\<open>check_zones\<close>\<close>

text \<open>A \<^verbatim>\<open>Detection\<close> object satisfies the constraint of its schema.\<close>

definition detection_valid :: "Detection \<Rightarrow> bool" where
  "detection_valid d = confidence_ok (d_confidence d)"

definition alert_for :: "Zone \<Rightarrow> Detection \<Rightarrow> ZoneAlert" where
  "alert_for zone detection =
     \<lparr>za_zone_id = z_id zone, za_zone_name = z_name zone, za_alert_type = z_alert_type zone,
      za_confidence = d_confidence detection\<rparr>"

definition center_in :: "platform \<Rightarrow> polygon \<Rightarrow> Detection \<Rightarrow> bool" where
  "center_in P polygon_coords detection =
     fst (is_point_in_polygon P (get_bbox_center (d_bbox detection)) polygon_coords)"

definition detection_events :: "platform \<Rightarrow> Zone \<Rightarrow> polygon \<Rightarrow> Detection \<Rightarrow> log_event list" where
  "detection_events P zone polygon_coords detection =
     snd (is_point_in_polygon P (get_bbox_center (d_bbox detection)) polygon_coords) @
     (if center_in P polygon_coords detection
      then [Info_ZoneViolation (z_name zone) (d_confidence detection)] else [])"

text \<open>The polygon that \<^verbatim>\<open>check_zones\<close> obtains for a zone.\<close>

definition zone_polygon :: "platform \<Rightarrow> Zone \<Rightarrow> polygon" where
  "zone_polygon P zone = fst (parse_zone_coordinates P (z_coordinates_json zone))"

definition zone_alerts :: "platform \<Rightarrow> Detection list \<Rightarrow> Zone \<Rightarrow> ZoneAlert list" where
  "zone_alerts P detections zone =
     (if z_active zone
      then map (alert_for zone) (filter (center_in P (zone_polygon P zone)) detections)
      else [])"

definition zone_events :: "platform \<Rightarrow> Detection list \<Rightarrow> Zone \<Rightarrow> log_event list" where
  "zone_events P detections zone =
     (if \<not> z_active zone then []
      else snd (parse_zone_coordinates P (z_coordinates_json zone)) @
           (if zone_polygon P zone = [] then [Warning_ZoneInvalidCoordinates (z_id zone)]
            else concat (map (detection_events P zone (zone_polygon P zone)) detections)))"

subsection \<open>Notions used in the statements about the filter and the parser\<close>

definition box_width :: "Box \<Rightarrow> real" where
  "box_width box = fst (snd (snd (box_xyxy box))) - fst (box_xyxy box)"

definition box_height :: "Box \<Rightarrow> real" where
  "box_height box = snd (snd (snd (box_xyxy box))) - fst (snd (box_xyxy box))"

definition detection_of_box :: "Box \<Rightarrow> Detection" where
  "detection_of_box box =
     \<lparr>d_class_name = ''person'', d_confidence = box_conf box,
      d_bbox = \<lparr>bb_x1 = fst (box_xyxy box), bb_y1 = fst (snd (box_xyxy box)),
                bb_x2 = fst (snd (snd (box_xyxy box))),
                bb_y2 = snd (snd (snd (box_xyxy box)))\<rparr>\<rparr>"

text \<open>The filter's criterion for a box of the model's output.\<close>

definition retained :: "Box \<Rightarrow> bool" where
  "retained box =
     (box_cls box = 0 \<and> 3 / 10 \<le> box_conf box \<and> 20 \<le> box_width box \<and> 40 \<le> box_height box)"

text \<open>In the words of the claim about the parser: an element that is a pair of numbers,
  that is a two-element JSON array of numbers, and the point it denotes.\<close>

fun is_number :: "json \<Rightarrow> bool" where
  "is_number (JInt i) = True"
| "is_number (JFloat r) = True"
| "is_number j = False"

fun number_value :: "json \<Rightarrow> real" where
  "number_value (JInt i) = real_of_int i"
| "number_value (JFloat r) = r"
| "number_value j = 0"

fun is_number_pair :: "json \<Rightarrow> bool" where
  "is_number_pair (JArray [a, b]) = (is_number a \<and> is_number b)"
| "is_number_pair j = False"

fun pair_value :: "json \<Rightarrow> point" where
  "pair_value (JArray [a, b]) = (number_value a, number_value b)"
| "pair_value j = (0, 0)"

text \<open>What the comprehension accepts: an element that unpacks into exactly two items, each
  of which \<^verbatim>\<open>float\<close> converts.\<close>

definition item_converts :: "platform \<Rightarrow> json \<Rightarrow> bool" where
  "item_converts P e =
     (case unpack2 e of
        Inl ex \<Rightarrow> False
      | Inr xy \<Rightarrow> \<not> isl (py_float P (fst xy)) \<and> \<not> isl (py_float P (snd xy)))"

subsection \<open>Stand-ins for the library functions, to run the model on concrete inputs\<close>

text \<open>\<open>example_platform\<close> decodes the JSON texts used in the examples below to the values
  \<^verbatim>\<open>json.loads\<close> returns for them and fails on every other text, converts the strings
  \<^verbatim>\<open>'1'\<close> to \<^verbatim>\<open>'4'\<close> as \<^verbatim>\<open>float\<close> does, and tests containment by the ray casting
  above. No example reaches \<^verbatim>\<open>json.dumps\<close>, which is left trivial.\<close>

definition example_loads :: "string \<Rightarrow> py_exn + json" where
  "example_loads s =
     (if s = ''[[0, 0], [100, 0], [100, 100], [0, 100]]''
      then Inr (JArray [JArray [JInt 0, JInt 0], JArray [JInt 100, JInt 0],
                        JArray [JInt 100, JInt 100], JArray [JInt 0, JInt 100]])
      else if s = ''[[50, 50], [150, 50], [150, 150], [50, 150]]''
      then Inr (JArray [JArray [JInt 50, JInt 50], JArray [JInt 150, JInt 50],
                        JArray [JInt 150, JInt 150], JArray [JInt 50, JInt 150]])
      else if s = ''[[0, 0], [100, 100]]''
      then Inr (JArray [JArray [JInt 0, JInt 0], JArray [JInt 100, JInt 100]])
      else if s = ''[]'' then Inr (JArray [])
      else if s = ''[[true, false]]'' then Inr (JArray [JArray [JBool True, JBool False]])
      else if s = ''[\"12\", \"34\"]'' then Inr (JArray [JString ''12'', JString ''34''])
      else Inl JSONDecodeError)"

definition example_float :: "string \<Rightarrow> py_exn + real" where
  "example_float s =
     (if s = ''1'' then Inr 1 else if s = ''2'' then Inr 2
      else if s = ''3'' then Inr 3 else if s = ''4'' then Inr 4
      else Inl ValueError)"

definition example_platform :: platform where
  "example_platform =
     \<lparr>json_loads = example_loads, str_to_float = example_float,
      polygon_contains = (\<lambda>polygon pt. point_in_polygon pt polygon),
      json_dumps = (\<lambda>coordinates. [])\<rparr>"

text \<open>Example data: a person detection with a given confidence and box, and a zone of
  camera \<^verbatim>\<open>cam-1\<close> with a given id, name, coordinate text and active flag.\<close>

definition person :: "real \<Rightarrow> real \<times> real \<times> real \<times> real \<Rightarrow> Detection" where
  "person c b =
     \<lparr>d_class_name = ''person'', d_confidence = c,
      d_bbox = \<lparr>bb_x1 = fst b, bb_y1 = fst (snd b), bb_x2 = fst (snd (snd b)),
                bb_y2 = snd (snd (snd b))\<rparr>\<rparr>"

definition example_zone :: "int \<Rightarrow> string \<Rightarrow> string \<Rightarrow> bool \<Rightarrow> Zone" where
  "example_zone i n coords a =
     \<lparr>z_id = i, z_camera_id = ''cam-1'', z_name = n, z_coordinates_json = coords,
      z_alert_type = ''intrusion'', z_active = a, z_active_hours = None, z_created_at = 0\<rparr>"

section \<open>Properties\<close>

subsection \<open>The containment test on degenerate polygons\<close>

text \<open>
  Claim C3. For every point and every polygon with fewer than 3 vertices, the service's
  \<^verbatim>\<open>is_point_in_polygon\<close> returns \<open>False\<close> and logs exactly the warning
  "Polygon must have at least 3 points"; the outcome is the same for every library
  containment function, so the containment computation is not consulted, and nothing is
  raised (the function returns a value). The demo's ray-casting \<^verbatim>\<open>point_in_polygon\<close>
  returns \<open>False\<close> on such a polygon as well, without entering its loop.
\<close>

theorem degenerate_polygon_rejected:
  assumes "length polygon_coords < 3"
  shows "is_point_in_polygon P pt polygon_coords = (False, [Warning_PolygonTooFewPoints])
       \<and> is_point_in_polygon (P\<lparr>polygon_contains := other\<rparr>) pt polygon_coords
           = is_point_in_polygon P pt polygon_coords
       \<and> point_in_polygon pt polygon_coords = Inr False"
  using assms by (simp add: is_point_in_polygon_def point_in_polygon_def)

theorem degenerate_polygon_rejected_witness:
  "is_point_in_polygon example_platform (50, 50) [(0, 0), (100, 0)]
     = (False, [Warning_PolygonTooFewPoints])
   \<and> is_point_in_polygon (example_platform\<lparr>polygon_contains := (\<lambda>polygon pt. Inr True)\<rparr>)
       (50, 50) [(0, 0), (100, 0)]
     = is_point_in_polygon example_platform (50, 50) [(0, 0), (100, 0)]
   \<and> point_in_polygon (50, 50) [(0, 0), (100, 0)] = Inr False"
  using degenerate_polygon_rejected
          [of "[(0, 0), (100, 0)]" example_platform "(50, 50)" "\<lambda>polygon pt. Inr True"]
  by simp


text \<open>The ray casting never reads \<^verbatim>\<open>xinters\<close> unbound: an edge that passes the two tests
  on \<open>y\<close> is not horizontal, so the assignment precedes the read, and the function returns
  for every point and polygon.\<close>

lemma ray_step_returns: "\<exists>s'. ray_step pt p2 s = Inr s'"
  by (auto simp: ray_step_def Let_def split: option.splits)

lemma ray_loop_returns: "\<exists>s'. ray_loop pt ps s = Inr s'"
proof (induction ps arbitrary: s)
  case Nil
  then show ?case by simp
next
  case (Cons p2 ps)
  from ray_step_returns [of pt p2 s] obtain s1 where "ray_step pt p2 s = Inr s1"
    by blast
  with Cons.IH [of s1] show ?case by simp
qed

lemma point_in_polygon_returns: "\<exists>b. point_in_polygon pt polygon = Inr b"
proof (cases "length polygon < 3")
  case True
  then have "point_in_polygon pt polygon = Inr False"
    by (simp add: point_in_polygon_def)
  then show ?thesis by blast
next
  case False
  from ray_loop_returns
         [of pt "map (\<lambda>i. polygon ! (i mod length polygon)) [1..<length polygon + 1]"
             "\<lparr>rs_p1 = polygon ! 0, rs_inside = False, rs_xinters = None\<rparr>"]
  obtain s' where
    "ray_loop pt (map (\<lambda>i. polygon ! (i mod length polygon)) [1..<length polygon + 1])
       \<lparr>rs_p1 = polygon ! 0, rs_inside = False, rs_xinters = None\<rparr> = Inr s'"
    by blast
  with False show ?thesis
    by (simp add: point_in_polygon_def Let_def)
qed

subsection \<open>Running the examples\<close>

lemma length_quoted_text: "length ''[\"12\", \"34\"]'' = 12"
  by simp

lemma zone_polygon_square:
  "zone_polygon example_platform (example_zone i n ''[[0, 0], [100, 0], [100, 100], [0, 100]]'' a)
     = [(0, 0), (100, 0), (100, 100), (0, 100)]"
  by (simp add: zone_polygon_def example_zone_def parse_zone_coordinates_def parse_try_def
        example_platform_def example_loads_def unpack2_def int_fits_float_def)

lemma zone_polygon_shifted:
  "zone_polygon example_platform (example_zone i n ''[[50, 50], [150, 50], [150, 150], [50, 150]]'' a)
     = [(50, 50), (150, 50), (150, 150), (50, 150)]"
  by (simp add: zone_polygon_def example_zone_def parse_zone_coordinates_def parse_try_def
        example_platform_def example_loads_def unpack2_def int_fits_float_def)

lemma zone_polygon_segment:
  "zone_polygon example_platform (example_zone i n ''[[0, 0], [100, 100]]'' a)
     = [(0, 0), (100, 100)]"
  by (simp add: zone_polygon_def example_zone_def parse_zone_coordinates_def parse_try_def
        example_platform_def example_loads_def unpack2_def int_fits_float_def)

lemma zone_polygon_garbage:
  "zone_polygon example_platform (example_zone i n ''invalid json'' a) = []"
  by (simp add: zone_polygon_def example_zone_def parse_zone_coordinates_def parse_try_def
        example_platform_def example_loads_def)

lemma example_contains:
  "polygon_contains example_platform polygon pt = point_in_polygon pt polygon"
  by (simp add: example_platform_def)

lemma square_75: "point_in_polygon (75, 75) [(0, 0), (100, 0), (100, 100), (0, 100)] = Inr True"
  by (simp add: point_in_polygon_def ray_step_def Let_def upt_rec)

lemma square_20_30: "point_in_polygon (20, 30) [(0, 0), (100, 0), (100, 100), (0, 100)] = Inr True"
  by (simp add: point_in_polygon_def ray_step_def Let_def upt_rec)

lemma square_210_230:
  "point_in_polygon (210, 230) [(0, 0), (100, 0), (100, 100), (0, 100)] = Inr False"
  by (simp add: point_in_polygon_def ray_step_def Let_def upt_rec)

lemma shifted_75: "point_in_polygon (75, 75) [(50, 50), (150, 50), (150, 150), (50, 150)] = Inr True"
  by (simp add: point_in_polygon_def ray_step_def Let_def upt_rec)

lemma shifted_20_30:
  "point_in_polygon (20, 30) [(50, 50), (150, 50), (150, 150), (50, 150)] = Inr False"
  by (simp add: point_in_polygon_def ray_step_def Let_def upt_rec)

lemma shifted_210_230:
  "point_in_polygon (210, 230) [(50, 50), (150, 50), (150, 150), (50, 150)] = Inr False"
  by (simp add: point_in_polygon_def ray_step_def Let_def upt_rec)

lemmas example_evals =
  zone_polygon_square zone_polygon_shifted zone_polygon_segment zone_polygon_garbage
  example_contains square_75 square_20_30 square_210_230 shifted_75 shifted_20_30 shifted_210_230

lemma person_fields:
  "d_confidence (person c b) = c"
  "bb_x1 (d_bbox (person c b)) = fst b"
  "bb_y1 (d_bbox (person c b)) = fst (snd b)"
  "bb_x2 (d_bbox (person c b)) = fst (snd (snd b))"
  "bb_y2 (d_bbox (person c b)) = snd (snd (snd b))"
  by (simp_all add: person_def)

lemma person_valid: "0 \<le> c \<Longrightarrow> c \<le> 1 \<Longrightarrow> detection_valid (person c b)"
  by (simp add: detection_valid_def confidence_ok_def person_def)

lemma example_zone_fields:
  "z_id (example_zone i n coords a) = i"
  "z_name (example_zone i n coords a) = n"
  "z_alert_type (example_zone i n coords a) = ''intrusion''"
  "z_active (example_zone i n coords a) = a"
  "z_camera_id (example_zone i n coords a) = ''cam-1''"
  "z_coordinates_json (example_zone i n coords a) = coords"
  by (simp_all add: example_zone_def)

subsection \<open>What \<^verbatim>\<open>check_zones\<close> computes\<close>

lemma center_in_Nil: "\<not> center_in P [] d"
  by (simp add: center_in_def is_point_in_polygon_def)

lemma check_detections_eq:
  "\<forall>d\<in>set ds. detection_valid d \<Longrightarrow>
   check_detections P zone poly ds st =
     Inr (fst st @ map (alert_for zone) (filter (center_in P poly) ds),
          snd st @ concat (map (detection_events P zone poly) ds))"
proof (induction ds arbitrary: st)
  case Nil
  then show ?case by simp
next
  case (Cons d ds)
  then have v: "confidence_ok (d_confidence d)" and rest: "\<forall>d\<in>set ds. detection_valid d"
    by (simp_all add: detection_valid_def)
  show ?case
    using Cons.IH [OF rest] v
    by (simp add: Let_def new_ZoneAlert_def center_in_def detection_events_def alert_for_def)
qed

lemma check_zones_loop_eq:
  "\<forall>d\<in>set ds. detection_valid d \<Longrightarrow>
   check_zones_loop P ds zs st =
     Inr (fst st @ concat (map (zone_alerts P ds) zs),
          snd st @ concat (map (zone_events P ds) zs))"
proof (induction zs arbitrary: st)
  case Nil
  then show ?case by simp
next
  case (Cons z zs)
  show ?case
    using Cons.IH [OF Cons.prems] check_detections_eq [OF Cons.prems]
    by (simp add: Let_def zone_alerts_def zone_events_def zone_polygon_def center_in_Nil)
qed

lemma check_zones_eq:
  "\<forall>d\<in>set ds. detection_valid d \<Longrightarrow>
   check_zones P ds zs =
     Inr (concat (map (zone_alerts P ds) zs),
          if zs = [] then [Debug_NoZones] else concat (map (zone_events P ds) zs))"
  by (simp add: check_zones_def check_zones_loop_eq)

lemma map_filter_concat:
  "map f (filter p xs) = concat (map (\<lambda>x. if p x then [f x] else []) xs)"
  by (induction xs) simp_all

lemma center_in_iff:
  "center_in P poly d \<longleftrightarrow>
     3 \<le> length poly \<and>
     polygon_contains P poly ((bb_x1 (d_bbox d) + bb_x2 (d_bbox d)) / 2,
                              (bb_y1 (d_bbox d) + bb_y2 (d_bbox d)) / 2) = Inr True"
  by (auto simp: center_in_def is_point_in_polygon_def get_bbox_center_def split: sum.splits)

lemma zone_alerts_comprehension:
  "zone_alerts P ds zone =
     concat (map (\<lambda>d. if z_active zone \<and> 3 \<le> length (zone_polygon P zone) \<and>
                polygon_contains P (zone_polygon P zone)
                  ((bb_x1 (d_bbox d) + bb_x2 (d_bbox d)) / 2,
                   (bb_y1 (d_bbox d) + bb_y2 (d_bbox d)) / 2) = Inr True
             then [\<lparr>za_zone_id = z_id zone, za_zone_name = z_name zone,
                    za_alert_type = z_alert_type zone, za_confidence = d_confidence d\<rparr>]
             else []) ds)"
  by (simp add: zone_alerts_def map_filter_concat center_in_iff alert_for_def cong: if_cong)

text \<open>
  Claim C1. For schema-valid detections, \<^verbatim>\<open>check_zones\<close> returns the list of alerts
  that has, in zone-then-detection order of the two input lists, one alert for each pair
  (zone, detection) such that the zone is active, its polygon has at least 3 points and the
  library test reports the center \<open>((x1+x2)/2, (y1+y2)/2)\<close> of the detection's box as
  contained in it. The alert carries the zone's id, name and alert type and the detection's
  confidence. Nothing is merged across zones or detections: the list is the plain
  comprehension over all pairs.
\<close>

theorem check_zones_alerts:
  assumes "\<forall>d\<in>set detections. detection_valid d"
  shows "\<exists>log. check_zones P detections zones =
     Inr ([\<lparr>za_zone_id = z_id zone, za_zone_name = z_name zone,
            za_alert_type = z_alert_type zone, za_confidence = d_confidence detection\<rparr>.
             zone \<leftarrow> zones, detection \<leftarrow> detections,
             z_active zone \<and> 3 \<le> length (zone_polygon P zone) \<and>
             polygon_contains P (zone_polygon P zone)
               ((bb_x1 (d_bbox detection) + bb_x2 (d_bbox detection)) / 2,
                (bb_y1 (d_bbox detection) + bb_y2 (d_bbox detection)) / 2) = Inr True], log)"
  by (simp add: check_zones_eq [OF assms] zone_alerts_comprehension [abs_def])

text \<open>Two overlapping active zones around an inactive one, and three persons: the first
  stands in both active zones, the second in none, the third in the first zone only.\<close>

theorem check_zones_alerts_witness:
  "\<exists>log. check_zones example_platform
            [person (9 / 10) (65, 55, 85, 95), person (9 / 10) (200, 200, 220, 260),
             person (1 / 2) (10, 10, 30, 50)]
            [example_zone 1 ''A'' ''[[0, 0], [100, 0], [100, 100], [0, 100]]'' True,
             example_zone 2 ''C'' ''[[0, 0], [100, 0], [100, 100], [0, 100]]'' False,
             example_zone 3 ''B'' ''[[50, 50], [150, 50], [150, 150], [50, 150]]'' True]
     = Inr ([\<lparr>za_zone_id = 1, za_zone_name = ''A'', za_alert_type = ''intrusion'',
               za_confidence = 9 / 10\<rparr>,
             \<lparr>za_zone_id = 1, za_zone_name = ''A'', za_alert_type = ''intrusion'',
               za_confidence = 1 / 2\<rparr>,
             \<lparr>za_zone_id = 3, za_zone_name = ''B'', za_alert_type = ''intrusion'',
               za_confidence = 9 / 10\<rparr>], log)"
  using check_zones_alerts
          [of "[person (9 / 10) (65, 55, 85, 95), person (9 / 10) (200, 200, 220, 260),
                person (1 / 2) (10, 10, 30, 50)]"
              example_platform
              "[example_zone 1 ''A'' ''[[0, 0], [100, 0], [100, 100], [0, 100]]'' True,
                example_zone 2 ''C'' ''[[0, 0], [100, 0], [100, 100], [0, 100]]'' False,
                example_zone 3 ''B'' ''[[50, 50], [150, 50], [150, 150], [50, 150]]'' True]"]
  by (simp add: person_valid person_fields example_zone_fields example_evals)



subsection \<open>Zones that contribute nothing\<close>

lemma parse_log_empty:
  "fst (parse_zone_coordinates P s) \<noteq> [] \<Longrightarrow> snd (parse_zone_coordinates P s) = []"
  by (simp add: parse_zone_coordinates_def split: sum.splits)

lemma center_in_short: "length poly < 3 \<Longrightarrow> \<not> center_in P poly d"
  by (simp add: center_in_def is_point_in_polygon_def)

lemma zone_alerts_short: "length (zone_polygon P z) < 3 \<Longrightarrow> zone_alerts P ds z = []"
  by (simp add: zone_alerts_def center_in_short)

lemma zone_events_short:
  assumes "z_active z" "zone_polygon P z \<noteq> []" "length (zone_polygon P z) < 3"
  shows "zone_events P ds z = replicate (length ds) Warning_PolygonTooFewPoints"
proof -
  have "detection_events P z (zone_polygon P z) = (\<lambda>d. [Warning_PolygonTooFewPoints])"
    using assms(3) by (auto simp: detection_events_def center_in_def is_point_in_polygon_def)
  moreover have "snd (parse_zone_coordinates P (z_coordinates_json z)) = []"
    using assms(2) by (simp add: zone_polygon_def parse_log_empty)
  ultimately show ?thesis
    using assms(1,2) by (simp add: zone_events_def map_replicate_const)
qed

lemma zone_events_empty:
  assumes "z_active z" "zone_polygon P z = []"
  shows "Warning_ZoneInvalidCoordinates (z_id z) \<in> set (zone_events P ds z)"
  using assms by (simp add: zone_events_def)

lemma count_list_replicate_other: "x \<noteq> y \<Longrightarrow> count_list (replicate n x) y = 0"
  by (induction n) simp_all

lemma count_list_replicate_same: "count_list (replicate n x) x = n"
  by (induction n) simp_all

lemma parse_log_cases:
  "snd (parse_zone_coordinates P s) = []
     \<or> (\<exists>ex. snd (parse_zone_coordinates P s) = [Error_ParseFailed ex])"
  by (simp add: parse_zone_coordinates_def split: sum.splits)

lemma parse_log_no_warning:
  "count_list (snd (parse_zone_coordinates P s)) Warning_PolygonTooFewPoints = 0"
  "count_list (snd (parse_zone_coordinates P s)) (Warning_ZoneInvalidCoordinates i) = 0"
  using parse_log_cases [of P s] by auto

lemma zone_events_skipped:
  assumes "length (zone_polygon P z) < 3"
  shows "zone_events P ds z =
           (if \<not> z_active z then []
            else if zone_polygon P z = []
            then snd (parse_zone_coordinates P (z_coordinates_json z))
                   @ [Warning_ZoneInvalidCoordinates (z_id z)]
            else replicate (length ds) Warning_PolygonTooFewPoints)"
proof (cases "z_active z \<and> zone_polygon P z \<noteq> []")
  case True
  with assms show ?thesis by (simp add: zone_events_short)
next
  case False
  then show ?thesis by (auto simp: zone_events_def)
qed

lemma parse_square:
  "parse_zone_coordinates example_platform ''[[0, 0], [100, 0], [100, 100], [0, 100]]''
     = ([(0, 0), (100, 0), (100, 100), (0, 100)], [])"
  by (simp add: parse_zone_coordinates_def parse_try_def example_platform_def
        example_loads_def unpack2_def int_fits_float_def)

lemma parse_shifted:
  "parse_zone_coordinates example_platform ''[[50, 50], [150, 50], [150, 150], [50, 150]]''
     = ([(50, 50), (150, 50), (150, 150), (50, 150)], [])"
  by (simp add: parse_zone_coordinates_def parse_try_def example_platform_def
        example_loads_def unpack2_def int_fits_float_def)

lemma parse_garbage:
  "parse_zone_coordinates example_platform ''invalid json''
     = ([], [Error_ParseFailed JSONDecodeError])"
  by (simp add: parse_zone_coordinates_def parse_try_def example_platform_def
        example_loads_def)

text \<open>
  Claim C5, as the code has it. For schema-valid detections the evaluator returns a result
  for every batch. A zone whose coordinates parse to fewer than 3 points (the empty list
  when the text cannot be parsed) is skipped: the batch with the zone yields exactly the
  alerts of the batch without it, and nothing is raised. The log of the batch is the log of
  the zones before it, then the events of the skipped zone, then the log of the zones after
  it, and the events of the skipped zone are exactly these: none for an inactive zone,
  which is skipped before its coordinates are read; for an active zone whose parse result
  is empty, the parser's error event when parsing failed, followed by the warning that
  names the zone's id; for an active zone with 1 or 2 points, the containment test's
  warning once per detection and nothing else, hence nothing when the batch has no
  detection. In counts: against the batch without the zone, the log has \<open>length ds\<close> more
  containment warnings for an active zone with 1 or 2 points and no more otherwise, and one
  more invalid-coordinates warning, for the zone's own id, for an active zone with an empty
  parse result and no more otherwise.
\<close>

theorem invalid_zone_skipped:
  assumes "\<forall>d\<in>set ds. detection_valid d"
    and "length (zone_polygon P z) < 3"
  shows "\<exists>alerts1 log1 alerts2 log2 events log log'.
           check_zones_loop P ds zs1 ([], []) = Inr (alerts1, log1)
         \<and> check_zones_loop P ds zs2 ([], []) = Inr (alerts2, log2)
         \<and> events =
              (if \<not> z_active z then []
               else if zone_polygon P z = []
               then snd (parse_zone_coordinates P (z_coordinates_json z))
                      @ [Warning_ZoneInvalidCoordinates (z_id z)]
               else replicate (length ds) Warning_PolygonTooFewPoints)
         \<and> (snd (parse_zone_coordinates P (z_coordinates_json z)) = []
              \<or> (\<exists>ex. snd (parse_zone_coordinates P (z_coordinates_json z))
                         = [Error_ParseFailed ex]))
         \<and> log = log1 @ events @ log2
         \<and> log' = (if zs1 @ zs2 = [] then [Debug_NoZones] else log1 @ log2)
         \<and> check_zones P ds (zs1 @ z # zs2) = Inr (alerts1 @ alerts2, log)
         \<and> check_zones P ds (zs1 @ zs2) = Inr (alerts1 @ alerts2, log')
         \<and> count_list log Warning_PolygonTooFewPoints
             = count_list log' Warning_PolygonTooFewPoints
               + (if z_active z \<and> zone_polygon P z \<noteq> [] then length ds else 0)
         \<and> (\<forall>i. count_list log (Warning_ZoneInvalidCoordinates i)
                  = count_list log' (Warning_ZoneInvalidCoordinates i)
                    + (if z_active z \<and> zone_polygon P z = [] \<and> i = z_id z then 1 else 0))"
proof -
  define events where "events =
      (if \<not> z_active z then []
       else if zone_polygon P z = []
       then snd (parse_zone_coordinates P (z_coordinates_json z))
              @ [Warning_ZoneInvalidCoordinates (z_id z)]
       else replicate (length ds) Warning_PolygonTooFewPoints)"
  define log1 where "log1 = concat (map (zone_events P ds) zs1)"
  define log2 where "log2 = concat (map (zone_events P ds) zs2)"
  define alerts1 where "alerts1 = concat (map (zone_alerts P ds) zs1)"
  define alerts2 where "alerts2 = concat (map (zone_alerts P ds) zs2)"
  have al: "zone_alerts P ds z = []"
    by (rule zone_alerts_short [OF assms(2)])
  have ev: "zone_events P ds z = events"
    unfolding events_def by (rule zone_events_skipped [OF assms(2)])
  have l1: "check_zones_loop P ds zs1 ([], []) = Inr (alerts1, log1)"
    by (simp add: check_zones_loop_eq [OF assms(1)] alerts1_def log1_def)
  have l2: "check_zones_loop P ds zs2 ([], []) = Inr (alerts2, log2)"
    by (simp add: check_zones_loop_eq [OF assms(1)] alerts2_def log2_def)
  have w: "check_zones P ds (zs1 @ z # zs2) = Inr (alerts1 @ alerts2, log1 @ events @ log2)"
    by (simp add: check_zones_eq [OF assms(1)] al ev alerts1_def alerts2_def log1_def log2_def)
  have wo: "check_zones P ds (zs1 @ zs2)
              = Inr (alerts1 @ alerts2, if zs1 @ zs2 = [] then [Debug_NoZones] else log1 @ log2)"
    by (simp add: check_zones_eq [OF assms(1)] alerts1_def alerts2_def log1_def log2_def)
  have c1: "count_list events Warning_PolygonTooFewPoints
              = (if z_active z \<and> zone_polygon P z \<noteq> [] then length ds else 0)"
    by (simp add: events_def parse_log_no_warning count_list_replicate_same)
  have c2: "count_list events (Warning_ZoneInvalidCoordinates i)
              = (if z_active z \<and> zone_polygon P z = [] \<and> i = z_id z then 1 else 0)" for i
    by (simp add: events_def parse_log_no_warning count_list_replicate_other)
  have e1: "zs1 @ zs2 = [] \<Longrightarrow> log1 = [] \<and> log2 = []"
    by (simp add: log1_def log2_def)
  have n1: "count_list (log1 @ events @ log2) Warning_PolygonTooFewPoints
              = count_list (if zs1 @ zs2 = [] then [Debug_NoZones] else log1 @ log2)
                  Warning_PolygonTooFewPoints
                + (if z_active z \<and> zone_polygon P z \<noteq> [] then length ds else 0)"
    using e1 by (auto simp: c1)
  have n2: "count_list (log1 @ events @ log2) (Warning_ZoneInvalidCoordinates i)
              = count_list (if zs1 @ zs2 = [] then [Debug_NoZones] else log1 @ log2)
                  (Warning_ZoneInvalidCoordinates i)
                + (if z_active z \<and> zone_polygon P z = [] \<and> i = z_id z then 1 else 0)" for i
    using e1 by (auto simp: c2)
  from l1 l2 w wo n1 n2 parse_log_cases [of P "z_coordinates_json z"] events_def
  show ?thesis by blast
qed

text \<open>A zone with unreadable coordinates between two good zones, and one person inside both
  good zones: the alerts are those of the two good zones, and the bad zone adds the parser's
  error and the warning naming it, between the events of its neighbours.\<close>

theorem invalid_zone_skipped_witness:
  "check_zones example_platform [person (9 / 10) (65, 55, 85, 95)]
       ([example_zone 1 ''A'' ''[[0, 0], [100, 0], [100, 100], [0, 100]]'' True] @
        example_zone 9 ''X'' ''invalid json'' True #
        [example_zone 3 ''B'' ''[[50, 50], [150, 50], [150, 150], [50, 150]]'' True])
       = Inr ([\<lparr>za_zone_id = 1, za_zone_name = ''A'', za_alert_type = ''intrusion'',
                 za_confidence = 9 / 10\<rparr>,
               \<lparr>za_zone_id = 3, za_zone_name = ''B'', za_alert_type = ''intrusion'',
                 za_confidence = 9 / 10\<rparr>],
              [Info_ZoneViolation ''A'' (9 / 10),
               Error_ParseFailed JSONDecodeError, Warning_ZoneInvalidCoordinates 9,
               Info_ZoneViolation ''B'' (9 / 10)])
   \<and> check_zones example_platform [person (9 / 10) (65, 55, 85, 95)]
       ([example_zone 1 ''A'' ''[[0, 0], [100, 0], [100, 100], [0, 100]]'' True] @
        [example_zone 3 ''B'' ''[[50, 50], [150, 50], [150, 150], [50, 150]]'' True])
       = Inr ([\<lparr>za_zone_id = 1, za_zone_name = ''A'', za_alert_type = ''intrusion'',
                 za_confidence = 9 / 10\<rparr>,
               \<lparr>za_zone_id = 3, za_zone_name = ''B'', za_alert_type = ''intrusion'',
                 za_confidence = 9 / 10\<rparr>],
              [Info_ZoneViolation ''A'' (9 / 10), Info_ZoneViolation ''B'' (9 / 10)])"
proof -
  have valid: "\<forall>d\<in>set [person (9 / 10) (65, 55, 85, 95)]. detection_valid d"
    by (simp add: person_valid)
  have bad: "length (zone_polygon example_platform (example_zone 9 ''X'' ''invalid json'' True)) < 3"
    by (simp add: zone_polygon_garbage)
  have before: "check_zones_loop example_platform [person (9 / 10) (65, 55, 85, 95)]
       [example_zone 1 ''A'' ''[[0, 0], [100, 0], [100, 100], [0, 100]]'' True] ([], [])
     = Inr ([\<lparr>za_zone_id = 1, za_zone_name = ''A'', za_alert_type = ''intrusion'',
               za_confidence = 9 / 10\<rparr>], [Info_ZoneViolation ''A'' (9 / 10)])"
    by (subst check_zones_loop_eq [OF valid])
       (simp add: zone_alerts_comprehension zone_events_def
          detection_events_def center_in_def is_point_in_polygon_def get_bbox_center_def
          parse_square person_fields example_zone_fields example_evals)
  have after: "check_zones_loop example_platform [person (9 / 10) (65, 55, 85, 95)]
       [example_zone 3 ''B'' ''[[50, 50], [150, 50], [150, 150], [50, 150]]'' True] ([], [])
     = Inr ([\<lparr>za_zone_id = 3, za_zone_name = ''B'', za_alert_type = ''intrusion'',
               za_confidence = 9 / 10\<rparr>], [Info_ZoneViolation ''B'' (9 / 10)])"
    by (subst check_zones_loop_eq [OF valid])
       (simp add: zone_alerts_comprehension zone_events_def
          detection_events_def center_in_def is_point_in_polygon_def get_bbox_center_def
          parse_shifted person_fields example_zone_fields example_evals)
  show ?thesis
    using invalid_zone_skipped [OF valid bad,
            of "[example_zone 1 ''A'' ''[[0, 0], [100, 0], [100, 100], [0, 100]]'' True]"
               "[example_zone 3 ''B'' ''[[50, 50], [150, 50], [150, 150], [50, 150]]'' True]"]
    by (auto simp: before after parse_garbage zone_polygon_garbage example_zone_fields
          simp del: check_zones_loop.simps)
qed

lemma parse_segment:
  "parse_zone_coordinates example_platform ''[[0, 0], [100, 100]]'' = ([(0, 0), (100, 100)], [])"
  by (simp add: parse_zone_coordinates_def parse_try_def example_platform_def
        example_loads_def unpack2_def int_fits_float_def)

text \<open>The claim as stated has every skipped zone reported. An active zone with two points
  in a batch without detections, and an inactive zone with unreadable coordinates, are
  skipped with an empty log.\<close>

theorem invalid_zone_unreported_counterexample:
  "zone_polygon example_platform (example_zone 7 ''Z'' ''[[0, 0], [100, 100]]'' True)
     = [(0, 0), (100, 100)]
   \<and> check_zones example_platform [] [example_zone 7 ''Z'' ''[[0, 0], [100, 100]]'' True]
     = Inr ([], [])
   \<and> zone_polygon example_platform (example_zone 8 ''Y'' ''invalid json'' False) = []
   \<and> check_zones example_platform [person (9 / 10) (65, 55, 85, 95)]
       [example_zone 8 ''Y'' ''invalid json'' False]
     = Inr ([], [])"
proof -
  have v0: "\<forall>d\<in>set ([] :: Detection list). detection_valid d"
    by simp
  have v1: "\<forall>d\<in>set [person (9 / 10) (65, 55, 85, 95)]. detection_valid d"
    by (simp add: person_valid)
  show ?thesis
    by (simp add: check_zones_eq [OF v0] check_zones_eq [OF v1] zone_alerts_def zone_events_def
          parse_segment example_zone_fields example_evals)
qed

text \<open>
  Claim C9. For schema-valid detections and an active zone whose coordinates parse to
  exactly 1 or 2 points: evaluated alone, the zone yields no alert and a log that consists
  of the containment test's warning once per detection, so the zone is not reported as
  having invalid coordinates; inside any batch, the zone adds no alert and no
  invalid-coordinates warning for any zone id.
\<close>

theorem short_polygon_zone_silent:
  assumes "\<forall>d\<in>set ds. detection_valid d"
    and "z_active z"
    and "length (zone_polygon P z) = 1 \<or> length (zone_polygon P z) = 2"
  shows "check_zones P ds [z] = Inr ([], replicate (length ds) Warning_PolygonTooFewPoints)
       \<and> (\<exists>alerts log log'.
             check_zones P ds (zs1 @ z # zs2) = Inr (alerts, log)
           \<and> check_zones P ds (zs1 @ zs2) = Inr (alerts, log')
           \<and> (\<forall>i. count_list log (Warning_ZoneInvalidCoordinates i)
                  = count_list log' (Warning_ZoneInvalidCoordinates i)))"
proof -
  from assms(3) have short: "length (zone_polygon P z) < 3" and ne: "zone_polygon P z \<noteq> []"
    by auto
  have al: "zone_alerts P ds z = []"
    by (rule zone_alerts_short [OF short])
  have ev: "zone_events P ds z = replicate (length ds) Warning_PolygonTooFewPoints"
    by (rule zone_events_short [OF assms(2) ne short])
  have one: "check_zones P ds [z] = Inr ([], replicate (length ds) Warning_PolygonTooFewPoints)"
    by (simp add: check_zones_eq [OF assms(1)] al ev)
  have batch: "\<exists>alerts log log'.
             check_zones P ds (zs1 @ z # zs2) = Inr (alerts, log)
           \<and> check_zones P ds (zs1 @ zs2) = Inr (alerts, log')
           \<and> (\<forall>i. count_list log (Warning_ZoneInvalidCoordinates i)
                  = count_list log' (Warning_ZoneInvalidCoordinates i))"
    by (simp add: check_zones_eq [OF assms(1)] al ev count_list_replicate_other)
  from one batch show ?thesis by simp
qed

theorem short_polygon_zone_silent_witness:
  "check_zones example_platform
     [person (9 / 10) (65, 55, 85, 95), person (1 / 2) (10, 10, 30, 50)]
     [example_zone 7 ''Z'' ''[[0, 0], [100, 100]]'' True]
   = Inr ([], [Warning_PolygonTooFewPoints, Warning_PolygonTooFewPoints])"
proof -
  have valid: "\<forall>d\<in>set [person (9 / 10) (65, 55, 85, 95), person (1 / 2) (10, 10, 30, 50)].
                 detection_valid d"
    by (simp add: person_valid)
  have two: "length (zone_polygon example_platform
                       (example_zone 7 ''Z'' ''[[0, 0], [100, 100]]'' True)) = 1
           \<or> length (zone_polygon example_platform
                       (example_zone 7 ''Z'' ''[[0, 0], [100, 100]]'' True)) = 2"
    by (simp add: zone_polygon_segment)
  have act: "z_active (example_zone 7 ''Z'' ''[[0, 0], [100, 100]]'' True)"
    by (simp add: example_zone_fields)
  show ?thesis
    using short_polygon_zone_silent [OF valid act two, of "[]" "[]"]
    by (simp add: numeral_2_eq_2)
qed

text \<open>
  Claim C6. For schema-valid detections, if every zone of the batch that carries id \<open>i\<close>
  is inactive, the evaluation returns and no alert of its result references \<open>i\<close>. The
  registry read of the engine, \<^verbatim>\<open>get_camera_zones\<close> with \<^verbatim>\<open>active_only\<close>, returns active
  zones only.
\<close>

theorem inactive_zone_no_alert:
  assumes "\<forall>d\<in>set ds. detection_valid d"
    and "\<forall>z\<in>set zs. z_id z = i \<longrightarrow> \<not> z_active z"
  shows "\<exists>alerts log. check_zones P ds zs = Inr (alerts, log)
           \<and> (\<forall>a\<in>set alerts. za_zone_id a \<noteq> i)
           \<and> (\<forall>z\<in>set (get_camera_zones d camera_id True). z_active z)"
proof -
  have "\<forall>a\<in>set (concat (map (zone_alerts P ds) zs)). za_zone_id a \<noteq> i"
    using assms(2) by (auto simp: zone_alerts_def alert_for_def split: if_splits)
  then show ?thesis
    by (simp add: check_zones_eq [OF assms(1)] get_camera_zones_def)
qed

text \<open>A person in the middle of an inactive zone (id 2) and of an active one (id 1) with the
  same polygon: the only alert is that of zone 1, and the registry read drops zone 2.\<close>

theorem inactive_zone_no_alert_witness:
  "(\<exists>log. check_zones example_platform [person (9 / 10) (65, 55, 85, 95)]
       [example_zone 2 ''C'' ''[[0, 0], [100, 0], [100, 100], [0, 100]]'' False,
        example_zone 1 ''A'' ''[[0, 0], [100, 0], [100, 100], [0, 100]]'' True]
     = Inr ([\<lparr>za_zone_id = 1, za_zone_name = ''A'', za_alert_type = ''intrusion'',
               za_confidence = 9 / 10\<rparr>], log))
   \<and> get_camera_zones
       \<lparr>db_cameras = [],
        db_zones = [example_zone 2 ''C'' ''[[0, 0], [100, 0], [100, 100], [0, 100]]'' False,
                    example_zone 1 ''A'' ''[[0, 0], [100, 0], [100, 100], [0, 100]]'' True],
        db_alerts = []\<rparr> ''cam-1'' True
     = [example_zone 1 ''A'' ''[[0, 0], [100, 0], [100, 100], [0, 100]]'' True]"
proof -
  have valid: "\<forall>d\<in>set [person (9 / 10) (65, 55, 85, 95)]. detection_valid d"
    by (simp add: person_valid)
  have inactive: "\<forall>z\<in>set [example_zone 2 ''C'' ''[[0, 0], [100, 0], [100, 100], [0, 100]]'' False,
        example_zone 1 ''A'' ''[[0, 0], [100, 0], [100, 100], [0, 100]]'' True].
          z_id z = 2 \<longrightarrow> \<not> z_active z"
    by (simp add: example_zone_fields)
  show ?thesis
    using inactive_zone_no_alert [OF valid inactive, of example_platform
            "\<lparr>db_cameras = [],
              db_zones = [example_zone 2 ''C'' ''[[0, 0], [100, 0], [100, 100], [0, 100]]'' False,
                          example_zone 1 ''A'' ''[[0, 0], [100, 0], [100, 100], [0, 100]]'' True],
              db_alerts = []\<rparr>" "''cam-1''"]
          check_zones_eq [OF valid, of example_platform
            "[example_zone 2 ''C'' ''[[0, 0], [100, 0], [100, 100], [0, 100]]'' False,
              example_zone 1 ''A'' ''[[0, 0], [100, 0], [100, 100], [0, 100]]'' True]"]
    by (simp add: zone_alerts_comprehension person_fields example_zone_fields example_evals
          get_camera_zones_def)
qed



subsection \<open>The detection filter\<close>

lemma process_box_detections:
  assumes "box_conf box \<le> 1"
  shows "\<exists>s'. process_box box s = Inr s'
           \<and> fs_detections s' =
               fs_detections s @ (if retained box then [detection_of_box box] else [])"
proof (cases "retained box")
  case True
  then have "confidence_ok (box_conf box)"
    using assms by (simp add: retained_def confidence_ok_def)
  with True show ?thesis
    by (simp add: process_box_def retained_def person_class_id_def box_width_def
          box_height_def new_Detection_def detection_of_box_def Let_def not_less)
next
  case False
  then show ?thesis
    by (auto simp: process_box_def retained_def person_class_id_def box_width_def
          box_height_def Let_def not_less)
qed

lemma process_boxes_detections:
  assumes "\<forall>box\<in>set boxes. box_conf box \<le> 1"
  shows "\<exists>s'. process_boxes boxes s = Inr s'
           \<and> fs_detections s' =
               fs_detections s @ map detection_of_box (filter retained boxes)"
  using assms
proof (induction boxes arbitrary: s)
  case Nil
  then show ?case by simp
next
  case (Cons box boxes)
  from Cons.prems have c: "box_conf box \<le> 1" and rest: "\<forall>box\<in>set boxes. box_conf box \<le> 1"
    by simp_all
  from process_box_detections [OF c, of s] obtain s1 where
    s1: "process_box box s = Inr s1"
        "fs_detections s1 = fs_detections s @ (if retained box then [detection_of_box box] else [])"
    by blast
  from Cons.IH [OF rest, of s1] obtain s2 where
    s2: "process_boxes boxes s1 = Inr s2"
        "fs_detections s2 = fs_detections s1 @ map detection_of_box (filter retained boxes)"
    by blast
  from s1 s2 show ?case by simp
qed

lemma process_results_detections:
  assumes "\<forall>box\<in>set (concat results). box_conf box \<le> 1"
  shows "\<exists>s'. process_results results s = Inr s'
           \<and> fs_detections s' =
               fs_detections s @ map detection_of_box (filter retained (concat results))"
  using assms
proof (induction results arbitrary: s)
  case Nil
  then show ?case by simp
next
  case (Cons boxes results)
  from Cons.prems have b: "\<forall>box\<in>set boxes. box_conf box \<le> 1"
    and rest: "\<forall>box\<in>set (concat results). box_conf box \<le> 1"
    by simp_all
  from process_boxes_detections [OF b, of s] obtain s1 where
    s1: "process_boxes boxes s = Inr s1"
        "fs_detections s1 = fs_detections s @ map detection_of_box (filter retained boxes)"
    by blast
  from Cons.IH [OF rest, of s1] obtain s2 where
    s2: "process_results results s1 = Inr s2"
        "fs_detections s2 = fs_detections s1 @ map detection_of_box (filter retained (concat results))"
    by blast
  from s1 s2 show ?case by simp
qed

text \<open>
  Claim C4. With the model loaded and scores of at most 1 (the range of a confidence), the
  detections returned for the boxes of an inference are, in the order of the boxes, those
  of the boxes of class person whose confidence is at least 0.3, whose width \<open>x2 - x1\<close> is
  at least 20 and whose height \<open>y2 - y1\<close> is at least 40; each keeps its confidence and
  box. Both bounds are inclusive: the witness keeps a box with confidence 0.3, width 20 and
  height 40, and drops boxes with confidence 0.29, with width 19, and of another class.
\<close>

theorem detection_filter_retains:
  assumes "\<forall>box\<in>set (concat results). box_conf box \<le> 1"
  shows "fst (detect_objects True (Inr results))
           = map detection_of_box
               (filter (\<lambda>box. box_cls box = 0 \<and> 3 / 10 \<le> box_conf box
                           \<and> 20 \<le> box_width box \<and> 40 \<le> box_height box)
                  (concat results))"
proof -
  from process_results_detections [OF assms,
         of "\<lparr>fs_detections = [], fs_total_person_detections = 0,
              fs_rejected_low_conf = 0, fs_rejected_small_box = 0, fs_log = []\<rparr>"]
  obtain s' where
    "process_results results
       \<lparr>fs_detections = [], fs_total_person_detections = 0,
        fs_rejected_low_conf = 0, fs_rejected_small_box = 0, fs_log = []\<rparr> = Inr s'"
    "fs_detections s' = map detection_of_box (filter retained (concat results))"
    by auto
  then show ?thesis
    by (simp add: detect_objects_def retained_def [abs_def])
qed

theorem detection_filter_retains_witness:
  "fst (detect_objects True
         (Inr [[\<lparr>box_cls = 0, box_conf = 3 / 10, box_xyxy = (0, 0, 20, 40)\<rparr>,
                \<lparr>box_cls = 0, box_conf = 29 / 100, box_xyxy = (65, 55, 85, 95)\<rparr>,
                \<lparr>box_cls = 0, box_conf = 9 / 10, box_xyxy = (0, 0, 19, 40)\<rparr>],
               [\<lparr>box_cls = 2, box_conf = 9 / 10, box_xyxy = (65, 55, 85, 95)\<rparr>,
                \<lparr>box_cls = 0, box_conf = 9 / 10, box_xyxy = (65, 55, 85, 95)\<rparr>]]))
   = [\<lparr>d_class_name = ''person'', d_confidence = 3 / 10,
        d_bbox = \<lparr>bb_x1 = 0, bb_y1 = 0, bb_x2 = 20, bb_y2 = 40\<rparr>\<rparr>,
      \<lparr>d_class_name = ''person'', d_confidence = 9 / 10,
        d_bbox = \<lparr>bb_x1 = 65, bb_y1 = 55, bb_x2 = 85, bb_y2 = 95\<rparr>\<rparr>]"
  using detection_filter_retains
          [of "[[\<lparr>box_cls = 0, box_conf = 3 / 10, box_xyxy = (0, 0, 20, 40)\<rparr>,
                 \<lparr>box_cls = 0, box_conf = 29 / 100, box_xyxy = (65, 55, 85, 95)\<rparr>,
                 \<lparr>box_cls = 0, box_conf = 9 / 10, box_xyxy = (0, 0, 19, 40)\<rparr>],
                [\<lparr>box_cls = 2, box_conf = 9 / 10, box_xyxy = (65, 55, 85, 95)\<rparr>,
                 \<lparr>box_cls = 0, box_conf = 9 / 10, box_xyxy = (65, 55, 85, 95)\<rparr>]]"]
  by (simp add: box_width_def box_height_def detection_of_box_def)



subsection \<open>The registry read\<close>

lemma check_detections_hours:
  "check_detections P (zone\<lparr>z_active_hours := h\<rparr>) poly ds st = check_detections P zone poly ds st"
  by (induction ds arbitrary: st) (simp_all add: Let_def split: sum.splits)

lemma check_zones_loop_hours:
  "check_zones_loop P ds (map (\<lambda>z. z\<lparr>z_active_hours := h z\<rparr>) zs) st = check_zones_loop P ds zs st"
  by (induction zs arbitrary: st) (simp_all add: Let_def check_detections_hours split: sum.splits)

lemma check_zones_hours:
  "check_zones P ds (map (\<lambda>z. z\<lparr>z_active_hours := h z\<rparr>) zs) = check_zones P ds zs"
  by (simp add: check_zones_def check_zones_loop_hours)

lemma filter_map_hours:
  "filter (\<lambda>z. z_camera_id z = c \<and> z_active z) (map (\<lambda>z. z\<lparr>z_active_hours := h z\<rparr>) zs)
     = map (\<lambda>z. z\<lparr>z_active_hours := h z\<rparr>) (filter (\<lambda>z. z_camera_id z = c \<and> z_active z) zs)"
  by (induction zs) simp_all

text \<open>
  Claim C2, as the code has it. \<^verbatim>\<open>get_camera_zones\<close> with \<^verbatim>\<open>active_only\<close> returns, in
  row order, exactly the zones of the camera whose \<open>active\<close> flag is set. It takes no
  evaluation time and does not read \<open>active_hours\<close>: replacing the active-hours field of
  every stored zone by anything else changes the returned zones in that field only, and
  leaves the outcome of the evaluation that follows in \<^verbatim>\<open>detect.py\<close> unchanged.
\<close>

theorem get_camera_zones_active_only:
  "get_camera_zones d camera_id True
     = filter (\<lambda>z. z_camera_id z = camera_id \<and> z_active z) (db_zones d)
   \<and> get_camera_zones (d\<lparr>db_zones := map (\<lambda>z. z\<lparr>z_active_hours := h z\<rparr>) (db_zones d)\<rparr>)
         camera_id True
     = map (\<lambda>z. z\<lparr>z_active_hours := h z\<rparr>) (get_camera_zones d camera_id True)
   \<and> detect_zone_alerts P (d\<lparr>db_zones := map (\<lambda>z. z\<lparr>z_active_hours := h z\<rparr>) (db_zones d)\<rparr>)
         camera_id detections
     = detect_zone_alerts P d camera_id detections"
  by (simp add: get_camera_zones_def detect_zone_alerts_def filter_map_hours check_zones_hours)

text \<open>A store with one active zone that carries an active-hours text: the zone is returned
  (with or without that text), and a person in its middle raises its alert.\<close>

theorem get_camera_zones_active_only_witness:
  "get_camera_zones
     \<lparr>db_cameras = [],
      db_zones = [(example_zone 1 ''A'' ''[[0, 0], [100, 0], [100, 100], [0, 100]]'' True)
                    \<lparr>z_active_hours := Some ''22:00-06:00''\<rparr>,
                  example_zone 2 ''C'' ''[[0, 0], [100, 0], [100, 100], [0, 100]]'' False],
      db_alerts = []\<rparr> ''cam-1'' True
    = [(example_zone 1 ''A'' ''[[0, 0], [100, 0], [100, 100], [0, 100]]'' True)
         \<lparr>z_active_hours := Some ''22:00-06:00''\<rparr>]"
  using get_camera_zones_active_only
          [of "\<lparr>db_cameras = [],
                db_zones = [(example_zone 1 ''A'' ''[[0, 0], [100, 0], [100, 100], [0, 100]]'' True)
                              \<lparr>z_active_hours := Some ''22:00-06:00''\<rparr>,
                            example_zone 2 ''C'' ''[[0, 0], [100, 0], [100, 100], [0, 100]]'' False],
                db_alerts = []\<rparr>" "''cam-1''"]
  by (simp add: example_zone_def)

text \<open>The claim as stated makes the result depend on whether the zone's window contains the
  evaluation time. Whatever the meaning \<open>W\<close> of "window \<open>h\<close> contains time \<open>t\<close>", as soon
  as some window excludes some time the read differs from the claimed one; the first
  conjunct shows a zone with a window being returned by a read that is given no time.\<close>

theorem get_camera_zones_ignores_hours_counterexample:
  "get_camera_zones
     \<lparr>db_cameras = [],
      db_zones = [\<lparr>z_id = 1, z_camera_id = ''cam-1'', z_name = ''A'',
                   z_coordinates_json = ''[[0, 0], [100, 0], [100, 100], [0, 100]]'',
                   z_alert_type = ''intrusion'', z_active = True,
                   z_active_hours = Some ''22:00-06:00'', z_created_at = 0\<rparr>],
      db_alerts = []\<rparr> ''cam-1'' True
    = [\<lparr>z_id = 1, z_camera_id = ''cam-1'', z_name = ''A'',
        z_coordinates_json = ''[[0, 0], [100, 0], [100, 100], [0, 100]]'',
        z_alert_type = ''intrusion'', z_active = True,
        z_active_hours = Some ''22:00-06:00'', z_created_at = 0\<rparr>]
   \<and> \<not> (\<exists>W :: string \<Rightarrow> nat \<Rightarrow> bool.
          (\<exists>h t. \<not> W h t)
        \<and> (\<forall>d camera_id t.
              set (get_camera_zones d camera_id True)
                = {z \<in> set (db_zones d). z_camera_id z = camera_id \<and> z_active z
                     \<and> (case z_active_hours z of None \<Rightarrow> True | Some h \<Rightarrow> W h t)}))"
proof -
  have conc: "get_camera_zones
     \<lparr>db_cameras = [],
      db_zones = [\<lparr>z_id = 1, z_camera_id = ''cam-1'', z_name = ''A'',
                   z_coordinates_json = ''[[0, 0], [100, 0], [100, 100], [0, 100]]'',
                   z_alert_type = ''intrusion'', z_active = True,
                   z_active_hours = Some ''22:00-06:00'', z_created_at = 0\<rparr>],
      db_alerts = []\<rparr> ''cam-1'' True
    = [\<lparr>z_id = 1, z_camera_id = ''cam-1'', z_name = ''A'',
        z_coordinates_json = ''[[0, 0], [100, 0], [100, 100], [0, 100]]'',
        z_alert_type = ''intrusion'', z_active = True,
        z_active_hours = Some ''22:00-06:00'', z_created_at = 0\<rparr>]"
    by (simp add: get_camera_zones_def)
  have gen: "\<not> (\<exists>W :: string \<Rightarrow> nat \<Rightarrow> bool.
          (\<exists>h t. \<not> W h t)
        \<and> (\<forall>d camera_id t.
              set (get_camera_zones d camera_id True)
                = {z \<in> set (db_zones d). z_camera_id z = camera_id \<and> z_active z
                     \<and> (case z_active_hours z of None \<Rightarrow> True | Some h \<Rightarrow> W h t)}))"
  proof
    assume "\<exists>W :: string \<Rightarrow> nat \<Rightarrow> bool.
          (\<exists>h t. \<not> W h t)
        \<and> (\<forall>d camera_id t.
              set (get_camera_zones d camera_id True)
                = {z \<in> set (db_zones d). z_camera_id z = camera_id \<and> z_active z
                     \<and> (case z_active_hours z of None \<Rightarrow> True | Some h \<Rightarrow> W h t)})"
    then obtain W :: "string \<Rightarrow> nat \<Rightarrow> bool" and h t where
      out: "\<not> W h t" and
      all: "\<And>d camera_id t.
              set (get_camera_zones d camera_id True)
                = {z \<in> set (db_zones d). z_camera_id z = camera_id \<and> z_active z
                     \<and> (case z_active_hours z of None \<Rightarrow> True | Some h \<Rightarrow> W h t)}"
      by blast
    define z where "z = (example_zone 1 ''A'' [] True)\<lparr>z_active_hours := Some h\<rparr>"
    define d where "d = \<lparr>db_cameras = [], db_zones = [z], db_alerts = []\<rparr>"
    have "z \<in> set (get_camera_zones d ''cam-1'' True)"
      by (simp add: get_camera_zones_def d_def z_def example_zone_def)
    with all [of d "''cam-1''" t] have "W h t"
      by (simp add: z_def)
    with out show False by simp
  qed
  from conc gen show ?thesis by simp
qed



subsection \<open>Zone creation and deletion\<close>

text \<open>
  Claim C7. A creation request whose coordinate list has fewer than 3 points is rejected
  by the route with status 422, the request-validation error of the schema, and the store
  is unchanged: the handler is not entered and no zone exists. The handler's own check
  would answer such a request with 400 (or 403, when the camera belongs to another user),
  also without adding a zone.
\<close>

theorem short_zone_request_rejected:
  assumes "length (zc_coordinates zone_data) < 3"
  shows "route_create_zone P d now current_user camera_id zone_data = (HTTPException 422, d)
       \<and> (fst (api_create_zone P d now current_user camera_id zone_data) = HTTPException 400
          \<or> fst (api_create_zone P d now current_user camera_id zone_data) = HTTPException 403)
       \<and> db_zones (snd (api_create_zone P d now current_user camera_id zone_data)) = db_zones d"
  using assms
  by (auto simp: route_create_zone_def ZoneCreate_valid_def api_create_zone_def create_camera_def
        Let_def split: option.splits)

theorem short_zone_request_rejected_witness:
  "route_create_zone example_platform \<lparr>db_cameras = [], db_zones = [], db_alerts = []\<rparr> 0
     \<lparr>u_id = 1, u_email = ''user@example.com''\<rparr> ''cam-1''
     \<lparr>zc_name = ''Gate'', zc_coordinates = [[0, 0], [100, 100]], zc_alert_type = ''intrusion'',
      zc_active = True, zc_active_hours = None\<rparr>
   = (HTTPException 422, \<lparr>db_cameras = [], db_zones = [], db_alerts = []\<rparr>)
   \<and> fst (api_create_zone example_platform \<lparr>db_cameras = [], db_zones = [], db_alerts = []\<rparr> 0
          \<lparr>u_id = 1, u_email = ''user@example.com''\<rparr> ''cam-1''
          \<lparr>zc_name = ''Gate'', zc_coordinates = [[0, 0], [100, 100]],
           zc_alert_type = ''intrusion'', zc_active = True, zc_active_hours = None\<rparr>)
     = HTTPException 400
   \<and> db_zones (snd (api_create_zone example_platform
          \<lparr>db_cameras = [], db_zones = [], db_alerts = []\<rparr> 0
          \<lparr>u_id = 1, u_email = ''user@example.com''\<rparr> ''cam-1''
          \<lparr>zc_name = ''Gate'', zc_coordinates = [[0, 0], [100, 100]],
           zc_alert_type = ''intrusion'', zc_active = True, zc_active_hours = None\<rparr>))
     = []"
  using short_zone_request_rejected
          [of "\<lparr>zc_name = ''Gate'', zc_coordinates = [[0, 0], [100, 100]],
                zc_alert_type = ''intrusion'', zc_active = True, zc_active_hours = None\<rparr>"
              example_platform "\<lparr>db_cameras = [], db_zones = [], db_alerts = []\<rparr>" 0
              "\<lparr>u_id = 1, u_email = ''user@example.com''\<rparr>" "''cam-1''"]
  by (simp add: api_create_zone_def get_camera_def create_camera_def)

lemma fold_delete_alert:
  "fold delete_alert xs d
     = d\<lparr>db_alerts := filter (\<lambda>a. a_id a \<notin> a_id ` set xs) (db_alerts d)\<rparr>"
proof (induction xs arbitrary: d)
  case Nil
  then show ?case by simp
next
  case (Cons x xs)
  have "fold delete_alert (x # xs) d = fold delete_alert xs (delete_alert x d)"
    by simp
  also have "\<dots> = (delete_alert x d)
      \<lparr>db_alerts := filter (\<lambda>a. a_id a \<notin> a_id ` set xs) (db_alerts (delete_alert x d))\<rparr>"
    by (rule Cons.IH)
  also have "\<dots> = d\<lparr>db_alerts := filter (\<lambda>a. a_id a \<notin> a_id ` set (x # xs)) (db_alerts d)\<rparr>"
    by (auto simp: delete_alert_def intro: filter_cong)
  finally show ?case .
qed

lemma referencing_ids:
  assumes "distinct (map a_id alerts)" and "a \<in> set alerts"
  shows "a_id a \<in> a_id ` set (filter (\<lambda>a. a_zone_id a = zid) alerts) \<longleftrightarrow> a_zone_id a = zid"
proof
  assume "a_id a \<in> a_id ` set (filter (\<lambda>a. a_zone_id a = zid) alerts)"
  then obtain b where b: "b \<in> set alerts" "a_zone_id b = zid" "a_id b = a_id a"
    by auto
  from assms(1) have "inj_on a_id (set alerts)"
    by (simp add: distinct_map)
  with b assms(2) have "b = a"
    by (auto dest: inj_onD)
  with b show "a_zone_id a = zid" by simp
next
  assume "a_zone_id a = zid"
  with assms(2) show "a_id a \<in> a_id ` set (filter (\<lambda>a. a_zone_id a = zid) alerts)"
    by auto
qed

text \<open>
  Claim C8. In a store whose alert ids are unique (\<open>id\<close> is the primary key), deleting a
  stored zone succeeds and leaves exactly the alerts that do not reference the zone's id,
  unchanged and in their order: no alert with that \<open>zone_id\<close> remains. No zone with that
  id remains either, and the cameras are untouched.
\<close>

theorem delete_zone_cascades:
  assumes "z \<in> set (db_zones d)"
    and "distinct (map a_id (db_alerts d))"
  shows "\<exists>d'. crud_delete_zone d (z_id z) = (True, d')
           \<and> (\<forall>a\<in>set (db_alerts d'). a_zone_id a \<noteq> z_id z)
           \<and> db_alerts d' = filter (\<lambda>a. a_zone_id a \<noteq> z_id z) (db_alerts d)
           \<and> db_zones d' = filter (\<lambda>z'. z_id z' \<noteq> z_id z) (db_zones d)
           \<and> db_cameras d' = db_cameras d"
proof -
  from assms(1) obtain zone where found: "get_zone d (z_id z) = Some zone"
    by (cases "get_zone d (z_id z)") (auto simp: get_zone_def find_None_iff)
  then have zid: "z_id zone = z_id z"
    by (auto simp: get_zone_def find_Some_iff)
  have "filter (\<lambda>a. a_id a \<notin> a_id ` set (filter (\<lambda>a. a_zone_id a = z_id z) (db_alerts d)))
          (db_alerts d)
        = filter (\<lambda>a. a_zone_id a \<noteq> z_id z) (db_alerts d)"
  proof (rule filter_cong [OF refl])
    fix a
    assume "a \<in> set (db_alerts d)"
    from referencing_ids [OF assms(2) this, of "z_id z"]
    show "(a_id a \<notin> a_id ` set (filter (\<lambda>a. a_zone_id a = z_id z) (db_alerts d)))
            = (a_zone_id a \<noteq> z_id z)"
      by simp
  qed
  then show ?thesis
    by (simp add: crud_delete_zone_def found zid fold_delete_alert Let_def)
qed

text \<open>Two zones, three alerts: deleting zone 1 removes its two alerts and keeps the alert of
  zone 3.\<close>

theorem delete_zone_cascades_witness:
  "crud_delete_zone
     \<lparr>db_cameras = [],
      db_zones = [example_zone 1 ''A'' ''[[0, 0], [100, 0], [100, 100], [0, 100]]'' True,
                  example_zone 3 ''B'' ''[[50, 50], [150, 50], [150, 150], [50, 150]]'' True],
      db_alerts =
        [\<lparr>a_id = 10, a_camera_id = ''cam-1'', a_zone_id = 1, a_detection_type = ''person'',
          a_confidence = 9 / 10, a_bbox_json = None, a_image_url = None, a_extra_data = None,
          a_timestamp = 5\<rparr>,
         \<lparr>a_id = 11, a_camera_id = ''cam-1'', a_zone_id = 3, a_detection_type = ''person'',
          a_confidence = 9 / 10, a_bbox_json = None, a_image_url = None, a_extra_data = None,
          a_timestamp = 5\<rparr>,
         \<lparr>a_id = 12, a_camera_id = ''cam-1'', a_zone_id = 1, a_detection_type = ''person'',
          a_confidence = 1 / 2, a_bbox_json = None, a_image_url = None, a_extra_data = None,
          a_timestamp = 6\<rparr>]\<rparr> 1
   = (True,
      \<lparr>db_cameras = [],
       db_zones = [example_zone 3 ''B'' ''[[50, 50], [150, 50], [150, 150], [50, 150]]'' True],
       db_alerts =
         [\<lparr>a_id = 11, a_camera_id = ''cam-1'', a_zone_id = 3, a_detection_type = ''person'',
           a_confidence = 9 / 10, a_bbox_json = None, a_image_url = None, a_extra_data = None,
           a_timestamp = 5\<rparr>]\<rparr>)"
  using delete_zone_cascades
          [of "example_zone 1 ''A'' ''[[0, 0], [100, 0], [100, 100], [0, 100]]'' True"
              "\<lparr>db_cameras = [],
      db_zones = [example_zone 1 ''A'' ''[[0, 0], [100, 0], [100, 100], [0, 100]]'' True,
                  example_zone 3 ''B'' ''[[50, 50], [150, 50], [150, 150], [50, 150]]'' True],
      db_alerts =
        [\<lparr>a_id = 10, a_camera_id = ''cam-1'', a_zone_id = 1, a_detection_type = ''person'',
          a_confidence = 9 / 10, a_bbox_json = None, a_image_url = None, a_extra_data = None,
          a_timestamp = 5\<rparr>,
         \<lparr>a_id = 11, a_camera_id = ''cam-1'', a_zone_id = 3, a_detection_type = ''person'',
          a_confidence = 9 / 10, a_bbox_json = None, a_image_url = None, a_extra_data = None,
          a_timestamp = 5\<rparr>,
         \<lparr>a_id = 12, a_camera_id = ''cam-1'', a_zone_id = 1, a_detection_type = ''person'',
          a_confidence = 1 / 2, a_bbox_json = None, a_image_url = None, a_extra_data = None,
          a_timestamp = 6\<rparr>]\<rparr>"]
  by (auto simp: example_zone_fields)



subsection \<open>The coordinate parser\<close>

lemma float_pairs_Inr:
  "float_pairs P items = Inr r \<Longrightarrow> length r = length items \<and> list_all (item_converts P) items"
proof (induction items arbitrary: r)
  case Nil
  then show ?case by simp
next
  case (Cons e es)
  then show ?case
    by (auto simp: item_converts_def split: sum.splits)
qed

lemma float_pairs_converts:
  "list_all (item_converts P) items \<Longrightarrow> \<exists>r. float_pairs P items = Inr r"
proof (induction items)
  case Nil
  then show ?case by simp
next
  case (Cons e es)
  then show ?case
    by (auto simp: item_converts_def isl_def split: sum.splits)
qed

lemma number_float:
  "is_number j \<Longrightarrow> \<not> isl (py_float P j) \<Longrightarrow> py_float P j = Inr (number_value j)"
  by (cases j) (simp_all split: if_splits)

lemma number_pair_unpack:
  "is_number_pair e \<Longrightarrow>
     \<exists>a b. unpack2 e = Inr (a, b) \<and> is_number a \<and> is_number b
          \<and> pair_value e = (number_value a, number_value b)"
  by (induction e rule: is_number_pair.induct) (simp_all add: unpack2_def)

lemma float_pairs_numbers:
  "list_all is_number_pair xs \<Longrightarrow> list_all (item_converts P) xs \<Longrightarrow>
     float_pairs P xs = Inr (map pair_value xs)"
proof (induction xs)
  case Nil
  then show ?case by simp
next
  case (Cons e es)
  then have e: "is_number_pair e" and c: "item_converts P e"
    and es: "float_pairs P es = Inr (map pair_value es)"
    by simp_all
  from number_pair_unpack [OF e] obtain a b where
    ab: "unpack2 e = Inr (a, b)" "is_number a" "is_number b"
        "pair_value e = (number_value a, number_value b)"
    by blast
  with c have "\<not> isl (py_float P a)" "\<not> isl (py_float P b)"
    by (simp_all add: item_converts_def)
  with ab show ?case
    by (simp add: es number_float)
qed

text \<open>
  Claim C10, as the code has it. \<^verbatim>\<open>parse_zone_coordinates\<close> returns a list of pairs
  for every string and raises nothing: it either returns the converted pairs with an empty
  log, or the empty list with one error event. When \<^verbatim>\<open>json.loads\<close> raises, the result is
  the empty list. The result is non-empty exactly when the decoded value is iterable, has
  at least one item, and each item unpacks into exactly two values that \<^verbatim>\<open>float\<close>
  converts; numbers are not required (a two-character string or a pair of booleans
  unpacks and converts). A list of pairs of numbers that \<^verbatim>\<open>float\<close> converts is returned
  as it is.
\<close>

theorem parse_zone_coordinates_total:
  "(snd (parse_zone_coordinates P s) = []
      \<or> (\<exists>ex. parse_zone_coordinates P s = ([], [Error_ParseFailed ex])))
   \<and> (\<forall>ex. json_loads P s = Inl ex
          \<longrightarrow> parse_zone_coordinates P s = ([], [Error_ParseFailed ex]))
   \<and> (fst (parse_zone_coordinates P s) \<noteq> []
        \<longleftrightarrow> (\<exists>j items. json_loads P s = Inr j \<and> py_iter j = Inr items \<and> items \<noteq> []
                      \<and> list_all (item_converts P) items))
   \<and> (\<forall>xs. json_loads P s = Inr (JArray xs) \<and> list_all is_number_pair xs
             \<and> list_all (item_converts P) xs
          \<longrightarrow> parse_zone_coordinates P s = (map pair_value xs, []))"
proof -
  have a: "snd (parse_zone_coordinates P s) = []
      \<or> (\<exists>ex. parse_zone_coordinates P s = ([], [Error_ParseFailed ex]))"
    by (simp add: parse_zone_coordinates_def split: sum.splits)
  have b: "\<forall>ex. json_loads P s = Inl ex
          \<longrightarrow> parse_zone_coordinates P s = ([], [Error_ParseFailed ex])"
    by (simp add: parse_zone_coordinates_def parse_try_def)
  have c: "fst (parse_zone_coordinates P s) \<noteq> []
        \<longleftrightarrow> (\<exists>j items. json_loads P s = Inr j \<and> py_iter j = Inr items \<and> items \<noteq> []
                      \<and> list_all (item_converts P) items)"
  proof
    assume ne: "fst (parse_zone_coordinates P s) \<noteq> []"
    then obtain r where r: "parse_try P s = Inr r" "r \<noteq> []"
      by (auto simp: parse_zone_coordinates_def split: sum.splits)
    then obtain j items where ji: "json_loads P s = Inr j" "py_iter j = Inr items"
        "float_pairs P items = Inr r"
      by (auto simp: parse_try_def split: sum.splits)
    from float_pairs_Inr [OF ji(3)] r(2) have "items \<noteq> []" "list_all (item_converts P) items"
      by auto
    with ji show "\<exists>j items. json_loads P s = Inr j \<and> py_iter j = Inr items \<and> items \<noteq> []
                      \<and> list_all (item_converts P) items"
      by blast
  next
    assume "\<exists>j items. json_loads P s = Inr j \<and> py_iter j = Inr items \<and> items \<noteq> []
                      \<and> list_all (item_converts P) items"
    then obtain j items where ji: "json_loads P s = Inr j" "py_iter j = Inr items"
        "items \<noteq> []" "list_all (item_converts P) items"
      by blast
    from float_pairs_converts [OF ji(4)] obtain r where r: "float_pairs P items = Inr r"
      by blast
    with float_pairs_Inr [OF r] ji(3) have "r \<noteq> []"
      by auto
    with ji r show "fst (parse_zone_coordinates P s) \<noteq> []"
      by (simp add: parse_zone_coordinates_def parse_try_def)
  qed
  have d: "\<forall>xs. json_loads P s = Inr (JArray xs) \<and> list_all is_number_pair xs
             \<and> list_all (item_converts P) xs
          \<longrightarrow> parse_zone_coordinates P s = (map pair_value xs, [])"
    by (simp add: parse_zone_coordinates_def parse_try_def float_pairs_numbers)
  from a b c d show ?thesis by blast
qed

text \<open>The two cases of \<^verbatim>\<open>tests/test_zones.py\<close>: a text that is not JSON, and a square.\<close>

theorem parse_zone_coordinates_total_witness:
  "parse_zone_coordinates example_platform ''invalid json''
     = ([], [Error_ParseFailed JSONDecodeError])
   \<and> parse_zone_coordinates example_platform ''[[0, 0], [100, 0], [100, 100], [0, 100]]''
     = ([(0, 0), (100, 0), (100, 100), (0, 100)], [])"
  using parse_zone_coordinates_total [of example_platform "''invalid json''"]
        parse_zone_coordinates_total
          [of example_platform "''[[0, 0], [100, 0], [100, 100], [0, 100]]''"]
  by (simp add: example_platform_def example_loads_def item_converts_def unpack2_def
        int_fits_float_def)

text \<open>The claim as stated has the empty list for every input whose elements are not pairs of
  numbers. The documents \<^verbatim>\<open>[[true, false]]\<close> and \<^verbatim>\<open>["12", "34"]\<close> have no such element
  and are parsed to points.\<close>

theorem parse_accepts_non_numbers_counterexample:
  "json_loads example_platform ''[[true, false]]'' = Inr (JArray [JArray [JBool True, JBool False]])
   \<and> \<not> is_number_pair (JArray [JBool True, JBool False])
   \<and> parse_zone_coordinates example_platform ''[[true, false]]'' = ([(1, 0)], [])
   \<and> json_loads example_platform ''[\"12\", \"34\"]'' = Inr (JArray [JString ''12'', JString ''34''])
   \<and> \<not> is_number_pair (JString ''12'') \<and> \<not> is_number_pair (JString ''34'')
   \<and> parse_zone_coordinates example_platform ''[\"12\", \"34\"]'' = ([(1, 2), (3, 4)], [])"
  by (simp add: parse_zone_coordinates_def parse_try_def example_platform_def example_loads_def
        example_float_def unpack2_def)


end
